theory Spec2Isabelle
  imports Main
begin

section \<open>Slugs (src/lib/constants.ts, \<open>slugify\<close>)\<close>

text \<open>
  A JavaScript string is modelled as a \<^typ>\<open>string\<close> whose characters are the code
  points below 256 (Latin-1). On this range \<open>toLowerCase\<close>, the class \<open>\s\<close> (also used
  by \<open>trim\<close>) and the class \<open>\w\<close> are written out exactly:
  \<^item> \<open>toLowerCase\<close> maps A-Z and the Latin-1 capitals 0xC0-0xDE (except 0xD7, the
    multiplication sign) to the character 32 places higher;
  \<^item> \<open>\s\<close> is TAB, LF, VT, FF, CR, space and the no-break space 0xA0;
  \<^item> \<open>\w\<close> is \<open>[A-Za-z0-9_]\<close>.
\<close>

definition isUpperCase :: "char \<Rightarrow> bool" where
  "isUpperCase c = (let n = (of_char c :: nat) in
     (65 \<le> n \<and> n \<le> 90) \<or> (192 \<le> n \<and> n \<le> 222 \<and> n \<noteq> 215))"

definition toLowerCaseChar :: "char \<Rightarrow> char" where
  "toLowerCaseChar c = (if isUpperCase c then char_of ((of_char c :: nat) + 32) else c)"

definition toLowerCase :: "string \<Rightarrow> string" where
  "toLowerCase s = map toLowerCaseChar s"

definition isWhiteSpace :: "char \<Rightarrow> bool" where
  "isWhiteSpace c = (let n = (of_char c :: nat) in (9 \<le> n \<and> n \<le> 13) \<or> n = 32 \<or> n = 160)"

definition isWordChar :: "char \<Rightarrow> bool" where
  "isWordChar c = (let n = (of_char c :: nat) in
     (65 \<le> n \<and> n \<le> 90) \<or> (97 \<le> n \<and> n \<le> 122) \<or> (48 \<le> n \<and> n \<le> 57) \<or> n = 95)"

text \<open>\<open>.trim()\<close>: white space is dropped at both ends.\<close>

definition trim :: "string \<Rightarrow> string" where
  "trim s = rev (dropWhile isWhiteSpace (rev (dropWhile isWhiteSpace s)))"

text \<open>\<open>.replace(/[^\w\s-]/g, '')\<close>: every character that is neither a word character,
  nor white space, nor a hyphen is deleted.\<close>

definition removeSpecial :: "string \<Rightarrow> string" where
  "removeSpecial s = filter (\<lambda>c. isWordChar c \<or> isWhiteSpace c \<or> c = CHR ''-'') s"

text \<open>\<open>.replace(/[\s_-]+/g, '-')\<close>: every maximal run of white space, underscores and
  hyphens becomes one hyphen.\<close>

definition isSeparator :: "char \<Rightarrow> bool" where
  "isSeparator c = (isWhiteSpace c \<or> c = CHR ''_'' \<or> c = CHR ''-'')"

function hyphenate :: "string \<Rightarrow> string" where
  "hyphenate [] = []"
| "hyphenate (c # cs) =
     (if isSeparator c then CHR ''-'' # hyphenate (dropWhile isSeparator cs)
      else c # hyphenate cs)"
  by pat_completeness auto
termination
  by (relation "measure length") (auto simp: length_dropWhile_le less_Suc_eq_le)

text \<open>\<open>.replace(/^-+|-+$/g, '')\<close>: hyphens are dropped at both ends.\<close>

definition isHyphen :: "char \<Rightarrow> bool" where
  "isHyphen c = (c = CHR ''-'')"

definition stripHyphens :: "string \<Rightarrow> string" where
  "stripHyphens s = rev (dropWhile isHyphen (rev (dropWhile isHyphen s)))"

definition slugify :: "string \<Rightarrow> string" where
  "slugify text = stripHyphens (hyphenate (removeSpecial (trim (toLowerCase text))))"

text \<open>The properties a slug is checked against.\<close>

definition isSlugChar :: "char \<Rightarrow> bool" where
  "isSlugChar c = (let n = (of_char c :: nat) in
     (97 \<le> n \<and> n \<le> 122) \<or> (48 \<le> n \<and> n \<le> 57) \<or> c = CHR ''-'')"

fun noDoubleHyphen :: "string \<Rightarrow> bool" where
  "noDoubleHyphen (a # b # cs) = (\<not> (isHyphen a \<and> isHyphen b) \<and> noDoubleHyphen (b # cs))"
| "noDoubleHyphen _ = True"

definition startsWithHyphen :: "string \<Rightarrow> bool" where
  "startsWithHyphen s = (case s of [] \<Rightarrow> False | c # _ \<Rightarrow> isHyphen c)"

definition endsWithHyphen :: "string \<Rightarrow> bool" where
  "endsWithHyphen s = startsWithHyphen (rev s)"

definition isSpecial :: "char \<Rightarrow> bool" where
  "isSpecial c = (\<not> isWordChar c \<and> \<not> isWhiteSpace c \<and> c \<noteq> CHR ''-'')"

definition isAlnumLower :: "char \<Rightarrow> bool" where
  "isAlnumLower c = (let n = (of_char c :: nat) in
     (97 \<le> n \<and> n \<le> 122) \<or> (48 \<le> n \<and> n \<le> 57))"


section \<open>The relational store (src/server/routes.ts, \<open>DatabaseStorage\<close>)\<close>

text \<open>
  The tables are declared in \<open>@shared/schema\<close>, which is not among the sources; a row
  carries the columns that the handlers and storage methods below read or write.
  Instants (\<open>new Date()\<close>, \<open>NOW()\<close>) are natural numbers handed to each operation. The
  database is taken to be reachable; what a storage method throws by its own code is a
  result of the model (\<open>Threw\<close>), and the store it leaves behind is returned with it.
\<close>

datatype 'a outcome = Returned 'a | Threw

record user =
  u_id :: nat
  u_username :: string
  u_password :: "string option"
  u_avatar :: "string option"
  u_role :: string
  u_permissions :: "string list"
  u_lastLogin :: "nat option"

record ticket =
  t_id :: nat
  t_userId :: nat
  t_subject :: string
  t_message :: string
  t_department :: string
  t_priority :: string
  t_status :: string
  t_assignedTo :: "nat option"
  t_closedAt :: "nat option"
  t_closedBy :: "nat option"
  t_updatedAt :: nat

record ticket_reply =
  r_id :: nat
  r_ticketId :: nat
  r_userId :: nat
  r_message :: string

record staff_application =
  a_id :: nat
  a_userId :: "nat option"
  a_position :: string
  a_experience :: string
  a_reason :: string
  a_additionalInfo :: string
  a_status :: string
  a_adminNotes :: string
  a_reviewedBy :: "nat option"
  a_createdAt :: nat
  a_updatedAt :: nat

record staff_member =
  m_id :: nat
  m_userId :: "nat option"
  m_name :: string
  m_position :: string
  m_role :: string
  m_avatar :: "string option"
  m_bio :: string
  m_isActive :: bool
  m_joinedAt :: nat
  m_displayOrder :: nat

record store =
  users :: "user list"
  tickets :: "ticket list"
  ticketReplies :: "ticket_reply list"
  staffApplications :: "staff_application list"
  staffMembers :: "staff_member list"

text \<open>The key that an INSERT generates for an auto-increment column: one more than the
  largest key of the table.\<close>

definition generatedKey :: "nat list \<Rightarrow> nat" where
  "generatedKey ids = Suc (fold max ids 0)"

text \<open>
  \<open>Number(result.insertId)\<close>, as every \<open>create...\<close> method reads it. The value that
  drizzle's mysql2 driver returns for an INSERT is the tuple of the result header and the
  field packets (\<open>MySqlRawQueryResult\<close>, imported at the head of the storage file); the
  generated key is a field of the header, not of the tuple, so the property read is
  \<open>undefined\<close> and its \<open>Number\<close> is NaN (\<open>None\<close>), whatever key was generated. The SELECT by
  that id, which follows in each method, is refused by the driver: the method throws after
  its INSERT. The code after the SELECT is kept in the model as the source has it.
\<close>

definition resultInsertId :: "nat \<Rightarrow> nat option" where
  "resultInsertId generated = None"

subsection \<open>Users\<close>

definition getUser :: "store \<Rightarrow> nat \<Rightarrow> user option" where
  "getUser db i = find (\<lambda>u. u_id u = i) (users db)"

definition getUserByUsername :: "store \<Rightarrow> string \<Rightarrow> user option" where
  "getUserByUsername db n = find (\<lambda>u. u_username u = n) (users db)"

record user_patch =
  up_username :: "string option"
  up_password :: "string option"
  up_role :: "string option"

definition applyUserPatch :: "user_patch \<Rightarrow> user \<Rightarrow> user" where
  "applyUserPatch d u = u\<lparr>
     u_username := (case up_username d of None \<Rightarrow> u_username u | Some v \<Rightarrow> v),
     u_password := (case up_password d of None \<Rightarrow> u_password u | Some v \<Rightarrow> Some v),
     u_role := (case up_role d of None \<Rightarrow> u_role u | Some v \<Rightarrow> v)\<rparr>"

definition updateUser :: "nat \<Rightarrow> user_patch \<Rightarrow> store \<Rightarrow> user option \<times> store" where
  "updateUser i d db =
     (let db' = db\<lparr>users := map (\<lambda>u. if u_id u = i then applyUserPatch d u else u) (users db)\<rparr>
      in (getUser db' i, db'))"

subsection \<open>Tickets and replies\<close>

definition getTicket :: "store \<Rightarrow> nat \<Rightarrow> ticket option" where
  "getTicket db i = find (\<lambda>t. t_id t = i) (tickets db)"

record ticket_patch =
  tp_status :: "string option"
  tp_assignedTo :: "nat option"

definition applyTicketPatch :: "ticket_patch \<Rightarrow> nat \<Rightarrow> ticket \<Rightarrow> ticket" where
  "applyTicketPatch d now t = t\<lparr>
     t_status := (case tp_status d of None \<Rightarrow> t_status t | Some v \<Rightarrow> v),
     t_assignedTo := (case tp_assignedTo d of None \<Rightarrow> t_assignedTo t | Some v \<Rightarrow> Some v),
     t_updatedAt := now\<rparr>"

definition updateTicket :: "nat \<Rightarrow> ticket_patch \<Rightarrow> nat \<Rightarrow> store \<Rightarrow> ticket option \<times> store" where
  "updateTicket i d now db =
     (let db' = db\<lparr>tickets :=
                  map (\<lambda>t. if t_id t = i then applyTicketPatch d now t else t) (tickets db)\<rparr>
      in (getTicket db' i, db'))"

definition closeTicket :: "nat \<Rightarrow> nat \<Rightarrow> nat \<Rightarrow> store \<Rightarrow> ticket option \<times> store" where
  "closeTicket i userId now db =
     (let db' = db\<lparr>tickets :=
                  map (\<lambda>t. if t_id t = i
                            then t\<lparr>t_status := ''closed'', t_closedAt := Some now,
                                   t_closedBy := Some userId, t_updatedAt := now\<rparr>
                            else t) (tickets db)\<rparr>
      in (case getTicket db' i of
            Some t \<Rightarrow> if t_status t = ''closed'' then (Some t, db') else (None, db')
          | None \<Rightarrow> (None, db')))"

text \<open>The rows come in the order of the table; the \<open>orderBy\<close> of the queries is not
  modelled (no operation below depends on it).\<close>

definition getTicketReplies :: "store \<Rightarrow> nat \<Rightarrow> ticket_reply list" where
  "getTicketReplies db i = filter (\<lambda>r. r_ticketId r = i) (ticketReplies db)"

record reply_insert =
  ri_ticketId :: nat
  ri_userId :: nat
  ri_message :: string
  ri_isStaff :: bool
  ri_attachments :: "string option"
  ri_isSystemMessage :: "bool option"

definition staffRoles :: "string list" where
  "staffRoles = [''admin'', ''moderator'', ''support'']"

text \<open>\<open>createTicketReply\<close>: the INSERT names the ticket, the author and the message only;
  then, when the author's row carries a staff role and the ticket is \<open>open\<close>, the ticket
  is updated.\<close>

definition newReply :: "reply_insert \<Rightarrow> store \<Rightarrow> ticket_reply" where
  "newReply reply db =
     \<lparr>r_id = generatedKey (map r_id (ticketReplies db)), r_ticketId = ri_ticketId reply,
      r_userId = ri_userId reply, r_message = ri_message reply\<rparr>"

definition createTicketReply ::
  "reply_insert \<Rightarrow> nat \<Rightarrow> store \<Rightarrow> ticket_reply option outcome \<times> store" where
  "createTicketReply reply now db =
     (let row = newReply reply db;
          db1 = db\<lparr>ticketReplies := ticketReplies db @ [row]\<rparr>
      in case resultInsertId (r_id row) of
           None \<Rightarrow> (Threw, db1)
         | Some i \<Rightarrow>
             (let createdReply = find (\<lambda>r. r_id r = i) (ticketReplies db1);
                  db2 = (case getUser db1 (ri_userId reply) of
                           None \<Rightarrow> db1
                         | Some u \<Rightarrow>
                             if u_role u \<in> set staffRoles then
                               (case getTicket db1 (ri_ticketId reply) of
                                  None \<Rightarrow> db1
                                | Some t \<Rightarrow>
                                    if t_status t = ''open'' then
                                      snd (updateTicket (ri_ticketId reply)
                                             \<lparr>tp_status = Some ''in_progress'',
                                              tp_assignedTo = Some (ri_userId reply)\<rparr> now db1)
                                    else db1)
                             else db1)
              in (Returned createdReply, db2)))"

text \<open>\<open>createTicket\<close>: the INSERT names the owner, the subject, the message, the department
  and the priority (\<open>normal\<close> when it is missing or empty); the other columns take the
  defaults of the table.\<close>

record ticket_insert =
  ti_userId :: nat
  ti_subject :: string
  ti_message :: string
  ti_department :: string
  ti_priority :: "string option"

text \<open>Modelled from the spec: the column defaults of \<open>tickets\<close>, declared in
  \<open>@shared/schema\<close>, which is not among the sources; a ticket is created \<open>open\<close>, with
  no assignee and no close metadata.\<close>

definition defaultTicketStatus :: string where
  "defaultTicketStatus = ''open''"

definition newTicket :: "ticket_insert \<Rightarrow> nat \<Rightarrow> store \<Rightarrow> ticket" where
  "newTicket ticket now db =
     \<lparr>t_id = generatedKey (map t_id (tickets db)), t_userId = ti_userId ticket,
      t_subject = ti_subject ticket, t_message = ti_message ticket,
      t_department = ti_department ticket,
      t_priority = (case ti_priority ticket of
                      None \<Rightarrow> ''normal'' | Some v \<Rightarrow> if v = [] then ''normal'' else v),
      t_status = defaultTicketStatus, t_assignedTo = None, t_closedAt = None,
      t_closedBy = None, t_updatedAt = now\<rparr>"

definition createTicket :: "ticket_insert \<Rightarrow> nat \<Rightarrow> store \<Rightarrow> ticket option outcome \<times> store" where
  "createTicket ticket now db =
     (let row = newTicket ticket now db;
          db1 = db\<lparr>tickets := tickets db @ [row]\<rparr>
      in case resultInsertId (t_id row) of
           None \<Rightarrow> (Threw, db1)
         | Some i \<Rightarrow> (Returned (getTicket db1 i), db1))"

subsection \<open>Staff applications and the staff roster\<close>

definition getStaffApplication :: "store \<Rightarrow> nat \<Rightarrow> staff_application option" where
  "getStaffApplication db i = find (\<lambda>a. a_id a = i) (staffApplications db)"

definition getStaffApplicationsByUserId :: "store \<Rightarrow> nat \<Rightarrow> staff_application list" where
  "getStaffApplicationsByUserId db uid =
     filter (\<lambda>a. a_userId a = Some uid) (staffApplications db)"

record application_insert =
  ai_userId :: "nat option"
  ai_position :: string
  ai_experience :: string
  ai_reason :: string
  ai_additionalInfo :: string
  ai_status :: "string option"
  ai_adminNotes :: "string option"
  ai_reviewedBy :: "nat option"

text \<open>Modelled from the spec: the column default of \<open>staff_applications.status\<close>, declared in
  \<open>@shared/schema\<close>, which is not among the sources; an application is created
  \<open>pending\<close>.\<close>

definition defaultApplicationStatus :: string where
  "defaultApplicationStatus = ''pending''"

definition newApplication :: "application_insert \<Rightarrow> nat \<Rightarrow> store \<Rightarrow> staff_application" where
  "newApplication application now db =
     \<lparr>a_id = generatedKey (map a_id (staffApplications db)), a_userId = ai_userId application,
      a_position = ai_position application,
      a_experience = ai_experience application,
      a_reason = ai_reason application,
      a_additionalInfo = ai_additionalInfo application,
      a_status = (case ai_status application of
                    None \<Rightarrow> defaultApplicationStatus | Some s \<Rightarrow> s),
      a_adminNotes = (case ai_adminNotes application of None \<Rightarrow> [] | Some s \<Rightarrow> s),
      a_reviewedBy = ai_reviewedBy application,
      a_createdAt = now, a_updatedAt = now\<rparr>"

definition createStaffApplication ::
  "application_insert \<Rightarrow> nat \<Rightarrow> store \<Rightarrow> staff_application option outcome \<times> store" where
  "createStaffApplication application now db =
     (let row = newApplication application now db;
          db1 = db\<lparr>staffApplications := staffApplications db @ [row]\<rparr>
      in case resultInsertId (a_id row) of
           None \<Rightarrow> (Threw, db1)
         | Some i \<Rightarrow> (Returned (getStaffApplication db1 i), db1))"

record application_patch =
  ap_status :: "string option"
  ap_adminNotes :: "string option"
  ap_reviewedBy :: "nat option"

definition applyApplicationPatch :: "application_patch \<Rightarrow> nat \<Rightarrow> staff_application \<Rightarrow> staff_application" where
  "applyApplicationPatch d now a = a\<lparr>
     a_status := (case ap_status d of None \<Rightarrow> a_status a | Some v \<Rightarrow> v),
     a_adminNotes := (case ap_adminNotes d of None \<Rightarrow> a_adminNotes a | Some v \<Rightarrow> v),
     a_reviewedBy := (case ap_reviewedBy d of None \<Rightarrow> a_reviewedBy a | Some v \<Rightarrow> Some v),
     a_updatedAt := now\<rparr>"

definition updateStaffApplication ::
  "nat \<Rightarrow> application_patch \<Rightarrow> nat \<Rightarrow> store \<Rightarrow> staff_application option \<times> store" where
  "updateStaffApplication i d now db =
     (let db' = db\<lparr>staffApplications :=
                  map (\<lambda>a. if a_id a = i then applyApplicationPatch d now a else a)
                      (staffApplications db)\<rparr>
      in (getStaffApplication db' i, db'))"

text \<open>\<open>getStaffMemberByUserId\<close>: an SQL comparison with NULL selects no row.\<close>

definition getStaffMemberByUserId :: "store \<Rightarrow> nat option \<Rightarrow> staff_member option" where
  "getStaffMemberByUserId db uid =
     (case uid of None \<Rightarrow> None
      | Some v \<Rightarrow> find (\<lambda>m. m_userId m = Some v) (staffMembers db))"

definition createStaffMember :: "staff_member \<Rightarrow> store \<Rightarrow> staff_member option outcome \<times> store" where
  "createStaffMember member db =
     (let k = generatedKey (map m_id (staffMembers db));
          db1 = db\<lparr>staffMembers := staffMembers db @ [member\<lparr>m_id := k\<rparr>]\<rparr>
      in case resultInsertId k of
           None \<Rightarrow> (Threw, db1)
         | Some i \<Rightarrow> (Returned (find (\<lambda>m. m_id m = i) (staffMembers db1)), db1))"


section \<open>Requests, principals and responses\<close>

text \<open>\<open>req.user\<close>, the principal that the session layer attaches to a request.\<close>

record principal =
  p_id :: nat
  p_username :: string
  p_role :: string
  p_permissions :: "string list"

datatype json =
    Msg string
  | ReplyJson "ticket_reply option" "user option"
  | TicketJson "ticket option"
  | AssignJson "ticket option"
  | ApplicationJson "staff_application option"
  | PrincipalJson principal

datatype response = Response (code: nat) (body: json)

definition msgNaoAutenticado :: string where
  "msgNaoAutenticado = ''N'' @ [CHR 0xE3] @ ''o autenticado''"

definition msgAcessoNegado :: string where
  "msgAcessoNegado = ''Acesso negado''"

definition msgTicketNaoEncontrado :: string where
  "msgTicketNaoEncontrado = ''Ticket n'' @ [CHR 0xE3] @ ''o encontrado''"

definition msgErroResponderTicket :: string where
  "msgErroResponderTicket = ''Erro ao responder ticket''"

definition msgErroCriarTicket :: string where
  "msgErroCriarTicket = ''Erro ao criar ticket''"

definition msgErroAtribuirTicket :: string where
  "msgErroAtribuirTicket = ''Erro ao atribuir ticket''"

definition msgErroCriarAplicacao :: string where
  "msgErroCriarAplicacao = ''Erro ao criar aplica'' @ [CHR 0xE7, CHR 0xE3] @ ''o''"

definition msgErroCriarCandidatura :: string where
  "msgErroCriarCandidatura = ''Erro ao criar candidatura''"

definition msgErroAtualizarCandidatura :: string where
  "msgErroAtualizarCandidatura = ''Erro ao atualizar candidatura''"

definition msgCandidaturaNaoEncontrada :: string where
  "msgCandidaturaNaoEncontrada = ''Candidatura n'' @ [CHR 0xE3] @ ''o encontrada''"

definition msgAplicacaoNaoEncontrada :: string where
  "msgAplicacaoNaoEncontrada =
     ''Aplica'' @ [CHR 0xE7, CHR 0xE3] @ ''o n'' @ [CHR 0xE3] @ ''o encontrada''"

definition msgStatusInvalido :: string where
  "msgStatusInvalido = ''Status inv'' @ [CHR 0xE1] @ ''lido''"

definition msgDadosInvalidos :: string where
  "msgDadosInvalidos =
     ''Dados de aplica'' @ [CHR 0xE7, CHR 0xE3] @ ''o inv'' @ [CHR 0xE1] @ ''lidos''"

definition msgCandidaturaPendente :: string where
  "msgCandidaturaPendente =
     ''Voc'' @ [CHR 0xEA] @ '' j'' @ [CHR 0xE1] @ '' possui uma candidatura pendente. ''
     @ ''Aguarde a an'' @ [CHR 0xE1] @ ''lise da atual antes de enviar outra.''"

text \<open>The middleware \<open>isAuthenticated\<close> and \<open>isAdmin\<close> of \<open>registerRoutes\<close>: \<open>Inl\<close> is the
  response that ends the request, \<open>Inr\<close> is \<open>next()\<close> with the principal of the request.\<close>

definition isAuthenticated :: "principal option \<Rightarrow> response + principal" where
  "isAuthenticated actor =
     (case actor of None \<Rightarrow> Inl (Response 401 (Msg msgNaoAutenticado)) | Some p \<Rightarrow> Inr p)"

definition isAdmin :: "principal option \<Rightarrow> response + principal" where
  "isAdmin actor =
     (case actor of
        None \<Rightarrow> Inl (Response 401 (Msg msgNaoAutenticado))
      | Some p \<Rightarrow> if p_role p \<noteq> ''admin'' then Inl (Response 403 (Msg msgAcessoNegado))
                  else Inr p)"


section \<open>Ticket handlers (src/server/routes.ts, \<open>registerRoutes\<close>)\<close>

text \<open>
  \<open>insertTicketSchema\<close> and \<open>insertTicketReplySchema\<close> are declared in \<open>@shared/schema\<close>,
  which is not among the sources: a handler takes the \<open>parse\<close> of its schema as a
  parameter, \<open>None\<close> standing for the ZodError it throws. A path parameter \<open>:id\<close> is the
  number it parses to. Whatever a handler's \<open>try\<close> block throws is answered by its
  \<open>catch\<close> with 500, and what was written before stays written.
\<close>

text \<open>POST /api/user/tickets\<close>

definition userTicketCreate ::
  "(ticket_insert \<Rightarrow> ticket_insert option) \<Rightarrow> principal option \<Rightarrow> nat \<Rightarrow> string \<Rightarrow> string
     \<Rightarrow> string \<Rightarrow> store \<Rightarrow> response \<times> store" where
  "userTicketCreate insertTicketSchema actor now title message category db =
     (case isAuthenticated actor of
        Inl rejected \<Rightarrow> (rejected, db)
      | Inr p \<Rightarrow>
          (case insertTicketSchema
                  \<lparr>ti_userId = p_id p, ti_subject = title, ti_message = message,
                   ti_department = category, ti_priority = Some ''medium''\<rparr> of
             None \<Rightarrow> (Response 500 (Msg msgErroCriarTicket), db)
           | Some ticketData \<Rightarrow>
               (case createTicket ticketData now db of
                  (Threw, db1) \<Rightarrow> (Response 500 (Msg msgErroCriarTicket), db1)
                | (Returned ticket, db1) \<Rightarrow> (Response 201 (TicketJson ticket), db1))))"

text \<open>POST /api/user/tickets/:id/reply. The object handed to the schema:\<close>

definition userReplyData :: "principal \<Rightarrow> nat \<Rightarrow> string \<Rightarrow> string option \<Rightarrow> reply_insert" where
  "userReplyData p ticketId message attachments =
     \<lparr>ri_ticketId = ticketId, ri_userId = p_id p, ri_message = message,
      ri_isStaff = (p_role p = ''admin'' \<or> p_role p = ''moderator''),
      ri_attachments = attachments, ri_isSystemMessage = None\<rparr>"

definition userTicketReply ::
  "(reply_insert \<Rightarrow> reply_insert option) \<Rightarrow> principal option \<Rightarrow> nat \<Rightarrow> nat \<Rightarrow> string
     \<Rightarrow> string option \<Rightarrow> store \<Rightarrow> response \<times> store" where
  "userTicketReply insertTicketReplySchema actor now ticketId message attachments db =
     (case isAuthenticated actor of
        Inl rejected \<Rightarrow> (rejected, db)
      | Inr p \<Rightarrow>
          (case getTicket db ticketId of
             None \<Rightarrow> (Response 404 (Msg msgTicketNaoEncontrado), db)
           | Some ticket \<Rightarrow>
               if t_userId ticket \<noteq> p_id p \<and> p_role p \<noteq> ''admin''
               then (Response 403 (Msg msgAcessoNegado), db)
               else
                 (case insertTicketReplySchema
                         (userReplyData p ticketId message attachments) of
                    None \<Rightarrow> (Response 500 (Msg msgErroResponderTicket), db)
                  | Some replyData \<Rightarrow>
                      (case createTicketReply replyData now db of
                         (Threw, db1) \<Rightarrow> (Response 500 (Msg msgErroResponderTicket), db1)
                       | (Returned reply, db1) \<Rightarrow>
                           (let db2 = (if ri_isStaff replyData \<and> t_status ticket = ''open''
                                       then snd (updateTicket ticketId
                                                   \<lparr>tp_status = Some ''processing'',
                                                    tp_assignedTo = None\<rparr> now db1)
                                       else db1)
                            in (Response 201 (ReplyJson reply (getUser db2 (p_id p))), db2))))))"

text \<open>POST /api/user/tickets/:id/close\<close>

definition userTicketClose :: "principal option \<Rightarrow> nat \<Rightarrow> nat \<Rightarrow> store \<Rightarrow> response \<times> store" where
  "userTicketClose actor now ticketId db =
     (case isAuthenticated actor of
        Inl rejected \<Rightarrow> (rejected, db)
      | Inr p \<Rightarrow>
          (case getTicket db ticketId of
             None \<Rightarrow> (Response 404 (Msg msgTicketNaoEncontrado), db)
           | Some ticket \<Rightarrow>
               if t_userId ticket \<noteq> p_id p \<and> p_role p \<noteq> ''admin''
               then (Response 403 (Msg msgAcessoNegado), db)
               else
                 (let (updatedTicket, db') = closeTicket ticketId (p_id p) now db
                  in (Response 200 (TicketJson updatedTicket), db'))))"

text \<open>PATCH /api/admin/tickets/:id/assign\<close>

definition assumedMessage :: "string \<Rightarrow> string" where
  "assumedMessage adminName =
     adminName @ '' assumiu este ticket e est'' @ [CHR 0xE1] @ '' trabalhando nele.''"

text \<open>The system reply appended on assignment: the admin's name is the user name of the
  admin's row, or \<open>Administrador\<close> when there is no row or the name is empty.\<close>

definition assignReply :: "principal \<Rightarrow> nat \<Rightarrow> store \<Rightarrow> reply_insert" where
  "assignReply p i db =
     \<lparr>ri_ticketId = i, ri_userId = p_id p,
      ri_message = assumedMessage (case getUser db (p_id p) of
                                     None \<Rightarrow> ''Administrador''
                                   | Some admin \<Rightarrow> if u_username admin = [] then ''Administrador''
                                                   else u_username admin),
      ri_isStaff = True, ri_attachments = None, ri_isSystemMessage = Some True\<rparr>"

definition adminTicketAssign :: "principal option \<Rightarrow> nat \<Rightarrow> nat \<Rightarrow> store \<Rightarrow> response \<times> store" where
  "adminTicketAssign actor now i db =
     (case isAdmin actor of
        Inl rejected \<Rightarrow> (rejected, db)
      | Inr p \<Rightarrow>
          (let adminId = p_id p in
           case getTicket db i of
             None \<Rightarrow> (Response 404 (Msg msgTicketNaoEncontrado), db)
           | Some ticket \<Rightarrow>
               (let (updatedTicket, db1) =
                      updateTicket i \<lparr>tp_status = Some ''processing'',
                                      tp_assignedTo = Some adminId\<rparr> now db
                in case createTicketReply (assignReply p i db1) now db1 of
                     (Threw, db2) \<Rightarrow> (Response 500 (Msg msgErroAtribuirTicket), db2)
                   | (Returned reply, db2) \<Rightarrow>
                       (Response 200 (AssignJson updatedTicket), db2))))"

text \<open>POST /api/admin/tickets/:id/reply\<close>

definition adminTicketReply ::
  "principal option \<Rightarrow> nat \<Rightarrow> nat \<Rightarrow> string \<Rightarrow> string option \<Rightarrow> store \<Rightarrow> response \<times> store" where
  "adminTicketReply actor now i message attachments db =
     (case isAdmin actor of
        Inl rejected \<Rightarrow> (rejected, db)
      | Inr p \<Rightarrow>
          (let adminId = p_id p in
           case getTicket db i of
             None \<Rightarrow> (Response 404 (Msg msgTicketNaoEncontrado), db)
           | Some ticket \<Rightarrow>
               (let db1 = (if (case t_assignedTo ticket of
                                 None \<Rightarrow> True
                               | Some a \<Rightarrow> a = 0 \<or> a \<noteq> adminId)
                           then snd (updateTicket i \<lparr>tp_status = Some ''processing'',
                                                     tp_assignedTo = Some adminId\<rparr> now db)
                           else db)
                in case createTicketReply
                          \<lparr>ri_ticketId = i, ri_userId = adminId, ri_message = message,
                           ri_isStaff = True, ri_attachments = attachments,
                           ri_isSystemMessage = None\<rparr> now db1 of
                     (Threw, db2) \<Rightarrow> (Response 500 (Msg msgErroResponderTicket), db2)
                   | (Returned reply, db2) \<Rightarrow>
                       (Response 201 (ReplyJson reply (getUser db2 adminId)), db2))))"

text \<open>The requests that reach the ticket routes, the route table, and a run of requests,
  each with its actor and its instant.\<close>

datatype ticket_request =
    CreateTicket string string string
  | UserReply nat string "string option"
  | UserClose nat
  | AdminAssign nat
  | AdminReply nat string "string option"

fun ticketRoute ::
  "(ticket_insert \<Rightarrow> ticket_insert option) \<Rightarrow> (reply_insert \<Rightarrow> reply_insert option)
     \<Rightarrow> principal option \<Rightarrow> nat \<Rightarrow> ticket_request \<Rightarrow> store \<Rightarrow> response \<times> store" where
  "ticketRoute ts rs actor now (CreateTicket title message category) db =
     userTicketCreate ts actor now title message category db"
| "ticketRoute ts rs actor now (UserReply i message attachments) db =
     userTicketReply rs actor now i message attachments db"
| "ticketRoute ts rs actor now (UserClose i) db = userTicketClose actor now i db"
| "ticketRoute ts rs actor now (AdminAssign i) db = adminTicketAssign actor now i db"
| "ticketRoute ts rs actor now (AdminReply i message attachments) db =
     adminTicketReply actor now i message attachments db"

fun runTicketRequests ::
  "(ticket_insert \<Rightarrow> ticket_insert option) \<Rightarrow> (reply_insert \<Rightarrow> reply_insert option)
     \<Rightarrow> (principal option \<times> nat \<times> ticket_request) list \<Rightarrow> store \<Rightarrow> store" where
  "runTicketRequests ts rs [] db = db"
| "runTicketRequests ts rs ((actor, now, rq) # rest) db =
     runTicketRequests ts rs rest (snd (ticketRoute ts rs actor now rq db))"

text \<open>The three statuses of a ticket, and a store all of whose tickets have one of them.\<close>

definition ticketStatuses :: "string list" where
  "ticketStatuses = [''open'', ''processing'', ''closed'']"

definition statusesValid :: "store \<Rightarrow> bool" where
  "statusesValid db = list_all (\<lambda>t. t_status t \<in> set ticketStatuses) (tickets db)"


section \<open>Application handlers (src/server/routes.ts, \<open>registerRoutes\<close>)\<close>

record application_body =
  b_position :: string
  b_experience :: string
  b_reason :: string
  b_additionalInfo :: "string option"

text \<open>POST /api/applications, first registration (line 599): no authentication is required
  and no pending application is looked for. \<open>insertStaffApplicationSchema\<close> is declared in
  \<open>@shared/schema\<close>, which is not among the sources: the handler takes its \<open>parse\<close> as a
  parameter, applied to the body and the user id that the handler adds, \<open>None\<close> standing
  for the ZodError it throws.\<close>

definition postApplicationFirst ::
  "(application_body \<Rightarrow> nat option \<Rightarrow> application_insert option) \<Rightarrow> principal option \<Rightarrow> nat
     \<Rightarrow> application_body \<Rightarrow> store \<Rightarrow> response \<times> store" where
  "postApplicationFirst insertStaffApplicationSchema actor now reqBody db =
     (case insertStaffApplicationSchema reqBody (map_option p_id actor) of
        None \<Rightarrow> (Response 400 (Msg msgDadosInvalidos), db)
      | Some validatedData \<Rightarrow>
          (case createStaffApplication validatedData now db of
             (Threw, db') \<Rightarrow> (Response 500 (Msg msgErroCriarAplicacao), db')
           | (Returned application, db') \<Rightarrow>
               (Response 200 (ApplicationJson application), db')))"

text \<open>POST /api/applications, second registration (line 1671), behind \<open>isAuthenticated\<close>.\<close>

definition postApplication ::
  "principal option \<Rightarrow> nat \<Rightarrow> application_body \<Rightarrow> store \<Rightarrow> response \<times> store" where
  "postApplication actor now reqBody db =
     (case isAuthenticated actor of
        Inl rejected \<Rightarrow> (rejected, db)
      | Inr p \<Rightarrow>
          (let existingApplications = getStaffApplicationsByUserId db (p_id p);
               hasPendingApplication = list_ex (\<lambda>a. a_status a = ''pending'') existingApplications
           in if hasPendingApplication
              then (Response 400 (Msg msgCandidaturaPendente), db)
              else
                (let applicationData =
                       \<lparr>ai_userId = Some (p_id p), ai_position = b_position reqBody,
                        ai_experience = b_experience reqBody, ai_reason = b_reason reqBody,
                        ai_additionalInfo =
                          (case b_additionalInfo reqBody of None \<Rightarrow> [] | Some s \<Rightarrow> s),
                        ai_status = Some ''pending'', ai_adminNotes = Some [],
                        ai_reviewedBy = None\<rparr>
                 in case createStaffApplication applicationData now db of
                      (Threw, db') \<Rightarrow> (Response 500 (Msg msgErroCriarCandidatura), db')
                    | (Returned application, db') \<Rightarrow>
                        (Response 201 (ApplicationJson application), db'))))"

text \<open>POST /api/applications as the router serves it. Express runs the handlers registered
  for a method and path in the order of registration, a later one only when an earlier one
  calls \<open>next()\<close>; the handler of line 599 answers every request itself, so the handler
  of line 1671 never runs.\<close>

definition postApplications ::
  "(application_body \<Rightarrow> nat option \<Rightarrow> application_insert option) \<Rightarrow> principal option \<Rightarrow> nat
     \<Rightarrow> application_body \<Rightarrow> store \<Rightarrow> response \<times> store" where
  "postApplications insertStaffApplicationSchema actor now reqBody db =
     postApplicationFirst insertStaffApplicationSchema actor now reqBody db"

text \<open>PATCH /api/admin/applications/:id/notes\<close>

definition patchApplicationNotes ::
  "principal option \<Rightarrow> nat \<Rightarrow> nat \<Rightarrow> string option \<Rightarrow> store \<Rightarrow> response \<times> store" where
  "patchApplicationNotes actor now i notes db =
     (case isAdmin actor of
        Inl rejected \<Rightarrow> (rejected, db)
      | Inr p \<Rightarrow>
          (let (application, db') =
                 updateStaffApplication i
                   \<lparr>ap_status = None, ap_adminNotes = notes, ap_reviewedBy = None\<rparr> now db
           in case application of
                None \<Rightarrow> (Response 404 (Msg msgCandidaturaNaoEncontrada), db')
              | Some a \<Rightarrow> (Response 200 (ApplicationJson (Some a)), db')))"

text \<open>PATCH /api/admin/applications/:id/approve and .../reject: the same handler up to the
  status written.\<close>

definition patchApplicationDecision ::
  "string \<Rightarrow> principal option \<Rightarrow> nat \<Rightarrow> nat \<Rightarrow> string option \<Rightarrow> store \<Rightarrow> response \<times> store" where
  "patchApplicationDecision decision actor now i notes db =
     (case isAdmin actor of
        Inl rejected \<Rightarrow> (rejected, db)
      | Inr p \<Rightarrow>
          (let (application, db') =
                 updateStaffApplication i
                   \<lparr>ap_status = Some decision, ap_adminNotes = notes,
                    ap_reviewedBy = Some (p_id p)\<rparr> now db
           in case application of
                None \<Rightarrow> (Response 404 (Msg msgCandidaturaNaoEncontrada), db')
              | Some a \<Rightarrow> (Response 200 (ApplicationJson (Some a)), db')))"

definition patchApplicationApprove ::
  "principal option \<Rightarrow> nat \<Rightarrow> nat \<Rightarrow> string option \<Rightarrow> store \<Rightarrow> response \<times> store" where
  "patchApplicationApprove = patchApplicationDecision ''approved''"

definition patchApplicationReject ::
  "principal option \<Rightarrow> nat \<Rightarrow> nat \<Rightarrow> string option \<Rightarrow> store \<Rightarrow> response \<times> store" where
  "patchApplicationReject = patchApplicationDecision ''rejected''"

text \<open>PUT /api/admin/applications/:id (legacy): the status of the body is written as it
  comes.\<close>

definition putApplication ::
  "principal option \<Rightarrow> nat \<Rightarrow> nat \<Rightarrow> string option \<Rightarrow> string option \<Rightarrow> store
     \<Rightarrow> response \<times> store" where
  "putApplication actor now i status adminNotes db =
     (case isAdmin actor of
        Inl rejected \<Rightarrow> (rejected, db)
      | Inr p \<Rightarrow>
          (let (application, db') =
                 updateStaffApplication i
                   \<lparr>ap_status = status, ap_adminNotes = adminNotes,
                    ap_reviewedBy = Some (p_id p)\<rparr> now db
           in case application of
                None \<Rightarrow> (Response 404 (Msg msgAplicacaoNaoEncontrada), db')
              | Some a \<Rightarrow> (Response 200 (ApplicationJson (Some a)), db')))"

text \<open>PATCH /api/admin/applications/:id: the status is one of the three names, the current
  status is not looked at; on \<open>approved\<close> the applicant joins the roster unless a roster row
  or no user row exists.\<close>

definition patchApplication ::
  "principal option \<Rightarrow> nat \<Rightarrow> nat \<Rightarrow> string option \<Rightarrow> string option \<Rightarrow> store
     \<Rightarrow> response \<times> store" where
  "patchApplication actor now i status adminNotes db =
     (case isAdmin actor of
        Inl rejected \<Rightarrow> (rejected, db)
      | Inr p \<Rightarrow>
          (case status of
             None \<Rightarrow> (Response 400 (Msg msgStatusInvalido), db)
           | Some st \<Rightarrow>
               if st \<notin> set [''approved'', ''rejected'', ''pending'']
               then (Response 400 (Msg msgStatusInvalido), db)
               else
                 (case getStaffApplication db i of
                    None \<Rightarrow> (Response 404 (Msg msgCandidaturaNaoEncontrada), db)
                  | Some application \<Rightarrow>
                      (let (updatedApplication, db1) =
                             updateStaffApplication i
                               \<lparr>ap_status = Some st,
                                ap_adminNotes =
                                  Some (case adminNotes of
                                          None \<Rightarrow> a_adminNotes application
                                        | Some n \<Rightarrow> if n = [] then a_adminNotes application
                                                    else n),
                                ap_reviewedBy = Some (p_id p)\<rparr> now db;
                           answered = (Response 200 (ApplicationJson updatedApplication), db1)
                       in if st = ''approved'' then
                            (case getStaffMemberByUserId db1 (a_userId application) of
                               Some existingMember \<Rightarrow> answered
                             | None \<Rightarrow>
                                 (case (case a_userId application of
                                          None \<Rightarrow> None | Some uid \<Rightarrow> getUser db1 uid) of
                                    None \<Rightarrow> answered
                                  | Some u \<Rightarrow>
                                      (case createStaffMember
                                              \<lparr>m_id = 0, m_userId = Some (u_id u),
                                               m_name = u_username u,
                                               m_position = a_position application,
                                               m_role = ''moderator'',
                                               m_avatar =
                                                 (case u_avatar u of
                                                    None \<Rightarrow> None
                                                  | Some v \<Rightarrow> if v = [] then None else Some v),
                                               m_bio = ''Novo membro da equipe'',
                                               m_isActive = True, m_joinedAt = now,
                                               m_displayOrder = 99\<rparr> db1 of
                                         (Threw, db2) \<Rightarrow>
                                           (Response 500 (Msg msgErroAtualizarCandidatura), db2)
                                       | (Returned member, db2) \<Rightarrow>
                                           (Response 200 (ApplicationJson updatedApplication),
                                            snd (updateUser (u_id u)
                                                   \<lparr>up_username = None, up_password = None,
                                                    up_role = Some ''moderator''\<rparr> db2)))))
                          else answered))))"

text \<open>The requests that reach the application routes, and the route table: each request is
  answered by its handler.\<close>

datatype application_request =
    PostFirst application_body
  | Post application_body
  | PatchNotes nat "string option"
  | PatchApprove nat "string option"
  | PatchReject nat "string option"
  | Put nat "string option" "string option"
  | Patch nat "string option" "string option"

fun applicationRoute ::
  "(application_body \<Rightarrow> nat option \<Rightarrow> application_insert option) \<Rightarrow> principal option \<Rightarrow> nat
     \<Rightarrow> application_request \<Rightarrow> store \<Rightarrow> response \<times> store" where
  "applicationRoute schema actor now (PostFirst b) db = postApplicationFirst schema actor now b db"
| "applicationRoute schema actor now (Post b) db = postApplication actor now b db"
| "applicationRoute schema actor now (PatchNotes i notes) db = patchApplicationNotes actor now i notes db"
| "applicationRoute schema actor now (PatchApprove i notes) db = patchApplicationApprove actor now i notes db"
| "applicationRoute schema actor now (PatchReject i notes) db = patchApplicationReject actor now i notes db"
| "applicationRoute schema actor now (Put i status notes) db = putApplication actor now i status notes db"
| "applicationRoute schema actor now (Patch i status notes) db = patchApplication actor now i status notes db"

text \<open>The requests whose handler writes the status column of an existing row.\<close>

fun writesStatus :: "application_request \<Rightarrow> bool" where
  "writesStatus (PatchApprove i notes) = True"
| "writesStatus (PatchReject i notes) = True"
| "writesStatus (Put i status notes) = True"
| "writesStatus (Patch i status notes) = True"
| "writesStatus _ = False"

text \<open>The pending applications of a user, and the roster rows of a user.\<close>

definition pendingOf :: "store \<Rightarrow> nat \<Rightarrow> staff_application list" where
  "pendingOf db uid =
     filter (\<lambda>a. a_userId a = Some uid \<and> a_status a = ''pending'') (staffApplications db)"

definition rosterOf :: "store \<Rightarrow> nat \<Rightarrow> staff_member list" where
  "rosterOf db uid = filter (\<lambda>m. m_userId m = Some uid) (staffMembers db)"


section \<open>Authentication (src/server/routes.ts, \<open>setupAuth\<close>)\<close>

text \<open>
  The authentication code queries the database directly; a query either throws
  (\<open>Unreachable\<close>) or runs on the tables. \<open>compare\<close> of bcrypt is a parameter. The outcome of
  \<open>req.login\<close>, which serialises the principal into the session, is a parameter as well:
  \<open>True\<close> when its callback receives an error.
\<close>

datatype database = Unreachable | Connected store

definition adminUser :: principal where
  "adminUser = \<lparr>p_id = 1, p_username = ''thuglife'', p_role = ''admin'',
                 p_permissions = [''admin'']\<rparr>"

definition principalOf :: "user \<Rightarrow> principal" where
  "principalOf u = \<lparr>p_id = u_id u, p_username = u_username u, p_role = u_role u,
                     p_permissions = u_permissions u\<rparr>"

datatype verified = Accepted principal | Refused string

definition msgUsuarioNaoEncontrado :: string where
  "msgUsuarioNaoEncontrado =
     ''Usu'' @ [CHR 0xE1] @ ''rio n'' @ [CHR 0xE3] @ ''o encontrado ou senha incorreta''"

definition msgErroConexao :: string where
  "msgErroConexao = ''Erro de conex'' @ [CHR 0xE3] @ ''o com banco de dados''"

definition msgUsuarioOuSenha :: string where
  "msgUsuarioOuSenha = ''Usu'' @ [CHR 0xE1] @ ''rio ou senha inv'' @ [CHR 0xE1] @ ''lidos''"

definition msgErroLogin :: string where
  "msgErroLogin = ''Erro ao fazer login''"

text \<open>The verify callback of the \<open>LocalStrategy\<close>.\<close>

definition localStrategy ::
  "(string \<Rightarrow> string \<Rightarrow> bool) \<Rightarrow> nat \<Rightarrow> string \<Rightarrow> string \<Rightarrow> database
     \<Rightarrow> verified \<times> database" where
  "localStrategy compare now username password d =
     (if username = ''thuglife'' \<and> password = ''thuglife'' then (Accepted adminUser, d)
      else
        (case d of
           Unreachable \<Rightarrow>
             if username = ''thuglife'' \<and> password = ''thuglife''
             then (Accepted adminUser, d)
             else (Refused msgErroConexao, d)
         | Connected db \<Rightarrow>
             (case getUserByUsername db username of
                None \<Rightarrow> (Refused msgUsuarioNaoEncontrado, d)
              | Some u \<Rightarrow>
                  (case u_password u of
                     None \<Rightarrow> (Refused msgUsuarioNaoEncontrado, d)
                   | Some h \<Rightarrow>
                       if h = [] then (Refused msgUsuarioNaoEncontrado, d)
                       else if \<not> compare password h then (Refused msgUsuarioNaoEncontrado, d)
                       else (Accepted (principalOf u),
                             Connected (db\<lparr>users :=
                               map (\<lambda>v. if u_id v = u_id u then v\<lparr>u_lastLogin := Some now\<rparr>
                                         else v) (users db)\<rparr>))))))"

definition serializeUser :: "principal \<Rightarrow> nat" where
  "serializeUser u = p_id u"

definition deserializeUser :: "nat \<Rightarrow> database \<Rightarrow> principal option" where
  "deserializeUser i d =
     (if i = 1 then Some adminUser
      else (case d of
              Unreachable \<Rightarrow> (if i = 1 then Some adminUser else None)
            | Connected db \<Rightarrow> map_option principalOf (getUser db i)))"

text \<open>POST /api/auth/login of \<open>setupAuth\<close>. The result carries the response, the user id kept
  in the session, and the database. An error of \<open>req.login\<close> on the ordinary path is handed
  to \<open>next\<close>.\<close>

datatype login_result = Answered response | NextError

definition postAuthLogin ::
  "(string \<Rightarrow> string \<Rightarrow> bool) \<Rightarrow> nat \<Rightarrow> bool \<Rightarrow> string \<Rightarrow> string \<Rightarrow> nat option \<Rightarrow> database
     \<Rightarrow> login_result \<times> nat option \<times> database" where
  "postAuthLogin compare now loginError username password session d =
     (if username = ''thuglife'' \<and> password = ''thuglife'' then
        (if loginError then (Answered (Response 500 (Msg msgErroLogin)), session, d)
         else (Answered (Response 200 (PrincipalJson adminUser)),
               Some (serializeUser adminUser), d))
      else
        (case localStrategy compare now username password d of
           (Refused m, d') \<Rightarrow>
             (Answered (Response 401 (Msg (if m = [] then msgUsuarioOuSenha else m))),
              session, d')
         | (Accepted u, d') \<Rightarrow>
             if loginError then (NextError, session, d')
             else (Answered (Response 200 (PrincipalJson u)), Some (serializeUser u), d')))"


section \<open>Stores used in the examples\<close>

text \<open>In the examples the ticket schema and the reply schema accept every payload and
  return it as it is (\<open>Some\<close>).\<close>

definition emptyStore :: store where
  "emptyStore = \<lparr>users = [], tickets = [], ticketReplies = [], staffApplications = [],
                  staffMembers = []\<rparr>"

definition mkUser :: "nat \<Rightarrow> string \<Rightarrow> string \<Rightarrow> user" where
  "mkUser i name r = \<lparr>u_id = i, u_username = name, u_password = None, u_avatar = None,
                        u_role = r, u_permissions = [], u_lastLogin = None\<rparr>"

definition mkTicket :: "nat \<Rightarrow> nat \<Rightarrow> string \<Rightarrow> nat option \<Rightarrow> ticket" where
  "mkTicket i owner st assignee = \<lparr>t_id = i, t_userId = owner, t_subject = ''Help'',
                        t_message = ''It does not start'', t_department = ''general'',
                        t_priority = ''medium'', t_status = st, t_assignedTo = assignee, t_closedAt = None,
                        t_closedBy = None, t_updatedAt = 0\<rparr>"

definition mkPrincipal :: "nat \<Rightarrow> string \<Rightarrow> string \<Rightarrow> principal" where
  "mkPrincipal i name r = \<lparr>p_id = i, p_username = name, p_role = r, p_permissions = []\<rparr>"


definition exUsers :: "user list" where
  "exUsers = [mkUser 2 ''root'' ''admin'', mkUser 5 ''ana'' ''user'',
              mkUser 6 ''bob'' ''moderator'', mkUser 7 ''eva'' ''support'']"

definition root :: principal where "root = mkPrincipal 2 ''root'' ''admin''"

definition ana :: principal where "ana = mkPrincipal 5 ''ana'' ''user''"

definition bob :: principal where "bob = mkPrincipal 6 ''bob'' ''moderator''"

definition eva :: principal where "eva = mkPrincipal 7 ''eva'' ''support''"

text \<open>Two tickets in the same status: ticket 10 of \<open>ana\<close>, ticket 11 of \<open>eva\<close>.\<close>

definition ticketStore :: "string \<Rightarrow> store" where
  "ticketStore st = emptyStore\<lparr>users := exUsers,
                      tickets := [mkTicket 10 5 st None, mkTicket 11 7 st None]\<rparr>"


text \<open>Applications: a body, and a schema that accepts every body and leaves the defaults
  to the table.\<close>

definition exBody :: application_body where
  "exBody = \<lparr>b_position = ''Moderator'', b_experience = ''two years'', b_reason = ''to help'',
              b_additionalInfo = None\<rparr>"

definition acceptingSchema :: "application_body \<Rightarrow> nat option \<Rightarrow> application_insert option" where
  "acceptingSchema b uid =
     Some \<lparr>ai_userId = uid, ai_position = b_position b, ai_experience = b_experience b,
           ai_reason = b_reason b,
           ai_additionalInfo = (case b_additionalInfo b of None \<Rightarrow> [] | Some x \<Rightarrow> x),
           ai_status = None, ai_adminNotes = None, ai_reviewedBy = None\<rparr>"

definition mkApplication :: "nat \<Rightarrow> nat \<Rightarrow> string \<Rightarrow> staff_application" where
  "mkApplication i uid st =
     \<lparr>a_id = i, a_userId = Some uid, a_position = ''Moderator'', a_experience = ''two years'',
      a_reason = ''to help'', a_additionalInfo = [], a_status = st, a_adminNotes = [],
      a_reviewedBy = None, a_createdAt = 0, a_updatedAt = 0\<rparr>"

definition mkMember :: "nat \<Rightarrow> nat \<Rightarrow> staff_member" where
  "mkMember i uid =
     \<lparr>m_id = i, m_userId = Some uid, m_name = ''ana'', m_position = ''Helper'',
      m_role = ''helper'', m_avatar = None, m_bio = [], m_isActive = True, m_joinedAt = 0,
      m_displayOrder = 999\<rparr>"

text \<open>Application 7 of \<open>ana\<close> (user 5), in a given status, with a given roster.\<close>

definition applicationStore :: "string \<Rightarrow> staff_member list \<Rightarrow> store" where
  "applicationStore st roster =
     emptyStore\<lparr>users := exUsers, staffApplications := [mkApplication 7 5 st],
                staffMembers := roster\<rparr>"


text \<open>A run of ticket requests: \<open>ana\<close> opens a ticket (12), \<open>root\<close> replies to ticket 10 on
  the user route, takes ticket 11, \<open>eva\<close> closes her ticket 11, \<open>root\<close> replies to ticket 12
  on the admin route and takes ticket 11 again.\<close>

definition exRun :: "(principal option \<times> nat \<times> ticket_request) list" where
  "exRun = [(Some ana, 1, CreateTicket ''Login'' ''I cannot log in'' ''account''),
            (Some root, 2, UserReply 10 ''on it'' None),
            (Some root, 3, AdminAssign 11),
            (Some eva, 4, UserClose 11),
            (Some root, 5, AdminReply 12 ''done'' None),
            (Some root, 6, AdminAssign 11)]"


section \<open>Properties of \<open>slugify\<close>\<close>

lemma toLowerCaseChar_not_upper:
  "\<not> (65 \<le> (of_char (toLowerCaseChar c) :: nat) \<and> (of_char (toLowerCaseChar c) :: nat) \<le> 90)"
  by (auto simp: toLowerCaseChar_def isUpperCase_def Let_def)

lemma set_trim: "set (trim s) \<subseteq> set s"
  unfolding trim_def by (auto dest!: set_dropWhileD)

lemma hyphenate_chars:
  "c \<in> set (hyphenate s) \<Longrightarrow> c = CHR ''-'' \<or> (c \<in> set s \<and> \<not> isSeparator c)"
proof (induction s rule: hyphenate.induct)
  case 1
  then show ?case by simp
next
  case (2 d ds)
  then show ?case
    by (auto split: if_splits dest: set_dropWhileD)
qed

lemma set_stripHyphens: "set (stripHyphens s) \<subseteq> set s"
  unfolding stripHyphens_def by (auto dest!: set_dropWhileD)

lemma slugify_chars: "c \<in> set (slugify s) \<Longrightarrow> isSlugChar c"
proof -
  assume "c \<in> set (slugify s)"
  then have "c \<in> set (hyphenate (removeSpecial (trim (toLowerCase s))))"
    using set_stripHyphens unfolding slugify_def by blast
  then consider "c = CHR ''-''"
    | "c \<in> set (removeSpecial (trim (toLowerCase s)))" "\<not> isSeparator c"
    using hyphenate_chars by blast
  then show ?thesis
  proof cases
    case 1
    then show ?thesis by (simp add: isSlugChar_def)
  next
    case 2
    then have w: "isWordChar c" and "c \<in> set (trim (toLowerCase s))"
      by (auto simp: removeSpecial_def isSeparator_def)
    then have "c \<in> set (toLowerCase s)" using set_trim by blast
    then obtain d where "c = toLowerCaseChar d" by (auto simp: toLowerCase_def)
    then have nu: "\<not> (65 \<le> (of_char c :: nat) \<and> (of_char c :: nat) \<le> 90)"
      using toLowerCaseChar_not_upper by simp
    have "c \<noteq> CHR ''_''" using 2(2) by (simp add: isSeparator_def)
    then have "(of_char c :: nat) \<noteq> of_char CHR ''_''"
      by (simp only: of_char_eq_iff not_False_eq_True)
    then have "(of_char c :: nat) \<noteq> 95" by simp
    with w nu show ?thesis by (auto simp: isWordChar_def isSlugChar_def Let_def)
  qed
qed

lemma hyphen_is_separator: "isHyphen c \<Longrightarrow> isSeparator c"
  by (simp add: isHyphen_def isSeparator_def)

lemma isSeparator_hyphen: "isSeparator CHR ''-''"
  by (simp add: isSeparator_def)

lemma hyphenate_head:
  "hyphenate s = y # ys \<Longrightarrow> s \<noteq> [] \<and> (isHyphen y \<longleftrightarrow> isSeparator (hd s))"
  by (cases s) (auto simp: isHyphen_def isSeparator_hyphen split: if_splits)

lemma noDoubleHyphen_Cons:
  "noDoubleHyphen (a # s) \<longleftrightarrow> (\<not> (isHyphen a \<and> startsWithHyphen s) \<and> noDoubleHyphen s)"
  by (cases s) (auto simp: startsWithHyphen_def)

lemma startsWithHyphen_hyphenate:
  "startsWithHyphen (hyphenate s) \<longleftrightarrow> (s \<noteq> [] \<and> isSeparator (hd s))"
  by (cases s) (auto simp: startsWithHyphen_def isHyphen_def isSeparator_hyphen)

lemma noDoubleHyphen_hyphenate: "noDoubleHyphen (hyphenate s)"
proof (induction s rule: hyphenate.induct)
  case 1
  then show ?case by simp
next
  case (2 c cs)
  show ?case
  proof (cases "isSeparator c")
    case True
    have "\<not> startsWithHyphen (hyphenate (dropWhile isSeparator cs))"
      using hd_dropWhile[of isSeparator cs] by (auto simp: startsWithHyphen_hyphenate)
    with True 2 show ?thesis by (simp add: noDoubleHyphen_Cons)
  next
    case False
    then have "\<not> isHyphen c" using hyphen_is_separator by blast
    with False 2 show ?thesis by (simp add: noDoubleHyphen_Cons)
  qed
qed

lemma noDoubleHyphen_append:
  "noDoubleHyphen (xs @ ys) \<Longrightarrow> noDoubleHyphen xs \<and> noDoubleHyphen ys"
proof (induction xs)
  case Nil
  then show ?case by simp
next
  case (Cons a xs)
  then show ?case
    by (cases xs) (auto simp: noDoubleHyphen_Cons startsWithHyphen_def)
qed

lemma strip_decompose:
  "\<exists>pre post. s = pre @ rev (dropWhile P (rev (dropWhile P s))) @ post"
proof -
  let ?u = "dropWhile P s"
  have 1: "s = takeWhile P s @ ?u" by simp
  have "rev ?u = takeWhile P (rev ?u) @ dropWhile P (rev ?u)" by simp
  then have "?u = rev (dropWhile P (rev ?u)) @ rev (takeWhile P (rev ?u))"
    by (metis rev_append rev_rev_ident)
  with 1 show ?thesis by metis
qed

lemma noDoubleHyphen_stripHyphens:
  assumes "noDoubleHyphen s" shows "noDoubleHyphen (stripHyphens s)"
proof -
  obtain pre post where "s = pre @ stripHyphens s @ post"
    using strip_decompose[of s isHyphen] unfolding stripHyphens_def by blast
  with assms show ?thesis using noDoubleHyphen_append by metis
qed

lemma strip_no_start: "\<not> startsWithHyphen (stripHyphens s)"
proof
  let ?u = "dropWhile isHyphen s"
  let ?v = "rev (dropWhile isHyphen (rev ?u))"
  assume "startsWithHyphen (stripHyphens s)"
  then obtain c cs where v: "?v = c # cs" and c: "isHyphen c"
    by (auto simp: startsWithHyphen_def stripHyphens_def split: list.splits)
  have "?u = ?v @ rev (takeWhile isHyphen (rev ?u))"
    by (metis rev_append rev_rev_ident takeWhile_dropWhile_id)
  with v have "?u = c # (cs @ rev (takeWhile isHyphen (rev ?u)))" by simp
  then have "?u \<noteq> []" and "hd ?u = c" by (metis list.distinct(1), metis list.sel(1))
  with c show False using hd_dropWhile[of isHyphen s] by simp
qed

lemma strip_no_end: "\<not> endsWithHyphen (stripHyphens s)"
proof
  let ?w = "dropWhile isHyphen (rev (dropWhile isHyphen s))"
  assume "endsWithHyphen (stripHyphens s)"
  then obtain c cs where w: "?w = c # cs" and c: "isHyphen c"
    by (auto simp: endsWithHyphen_def startsWithHyphen_def stripHyphens_def split: list.splits)
  then have "?w \<noteq> []" and "hd ?w = c" by simp_all
  with c show False using hd_dropWhile[of isHyphen "rev (dropWhile isHyphen s)"] by simp
qed

lemma slugChar_lower: "isSlugChar c \<Longrightarrow> toLowerCaseChar c = c"
  by (auto simp: isSlugChar_def toLowerCaseChar_def isUpperCase_def Let_def)

lemma slugify_lower: "toLowerCase (slugify s) = slugify s"
  unfolding toLowerCase_def using slugify_chars slugChar_lower by (simp add: map_idI)

lemma both_ends_id:
  "s = [] \<or> (\<not> P (hd s) \<and> \<not> P (last s)) \<Longrightarrow> rev (dropWhile P (rev (dropWhile P s))) = s"
proof (cases "s = []")
  case True
  then show ?thesis by simp
next
  case False
  assume "s = [] \<or> (\<not> P (hd s) \<and> \<not> P (last s))"
  with False have h: "\<not> P (hd s)" and l: "\<not> P (last s)" by simp_all
  from h have 1: "dropWhile P s = s" by (simp add: dropWhile_eq_self_iff)
  from l False have "dropWhile P (rev s) = rev s" by (simp add: dropWhile_eq_self_iff hd_rev)
  with 1 show ?thesis by simp
qed

lemma alnum_facts:
  assumes "isAlnumLower c"
  shows "toLowerCaseChar c = c" "isWordChar c" "\<not> isWhiteSpace c" "\<not> isSeparator c" "\<not> isHyphen c"
  using assms
  by (auto simp: isAlnumLower_def toLowerCaseChar_def isUpperCase_def isWordChar_def
      isWhiteSpace_def isSeparator_def isHyphen_def Let_def)

lemma separator_facts:
  assumes "isSeparator c"
  shows "toLowerCaseChar c = c" "isWordChar c \<or> isWhiteSpace c \<or> c = CHR ''-''"
  using assms
  by (auto simp: toLowerCaseChar_def isUpperCase_def isWordChar_def
      isWhiteSpace_def isSeparator_def Let_def)

lemma hyphen_code: "(of_char c :: nat) = 45 \<longleftrightarrow> c = CHR ''-''"
proof -
  have "(of_char c :: nat) = of_char CHR ''-'' \<longleftrightarrow> c = CHR ''-''" by (rule of_char_eq_iff)
  then show ?thesis by simp
qed

lemma lower_code:
  "(of_char (toLowerCaseChar c) :: nat) = (if isUpperCase c then of_char c + 32 else of_char c)"
  by (auto simp: toLowerCaseChar_def isUpperCase_def Let_def)

lemma special_facts:
  assumes "isSpecial c"
  shows "\<not> isWordChar (toLowerCaseChar c)" "\<not> isWhiteSpace (toLowerCaseChar c)"
    "toLowerCaseChar c \<noteq> CHR ''-''"
proof -
  have s: "\<not> isWordChar c" "\<not> isWhiteSpace c" "(of_char c :: nat) \<noteq> 45"
    using assms by (simp_all add: isSpecial_def hyphen_code)
  then show "\<not> isWordChar (toLowerCaseChar c)" "\<not> isWhiteSpace (toLowerCaseChar c)"
    unfolding isWordChar_def isWhiteSpace_def Let_def lower_code
    by (auto simp: isUpperCase_def Let_def)
  have "(of_char (toLowerCaseChar c) :: nat) \<noteq> 45"
    unfolding lower_code using s(3) by (auto simp: isUpperCase_def Let_def)
  then show "toLowerCaseChar c \<noteq> CHR ''-''" by (simp add: hyphen_code)
qed

lemma hyphenate_word_prefix:
  "list_all (\<lambda>c. \<not> isSeparator c) a \<Longrightarrow> hyphenate (a @ t) = a @ hyphenate t"
  by (induction a) auto

lemma hyphenate_run:
  assumes "sep \<noteq> []" "list_all isSeparator sep" "b = [] \<or> \<not> isSeparator (hd b)"
  shows "hyphenate (sep @ b) = CHR ''-'' # hyphenate b"
proof -
  obtain c cs where sep: "sep = c # cs" using assms(1) by (cases sep) auto
  with assms(2) have c: "isSeparator c" and cs: "\<forall>x\<in>set cs. isSeparator x"
    by (auto simp: list_all_iff)
  have "dropWhile isSeparator (cs @ b) = dropWhile isSeparator b"
    using cs by (simp add: dropWhile_append2)
  also have "\<dots> = b" using assms(3) by (simp add: dropWhile_eq_self_iff)
  finally show ?thesis using sep c by simp
qed

lemma slugify_separator_run:
  assumes a: "a \<noteq> []" "list_all isAlnumLower a" and b: "b \<noteq> []" "list_all isAlnumLower b"
    and sep: "sep \<noteq> []" "list_all isSeparator sep"
  shows "slugify (a @ sep @ b) = a @ ''-'' @ b"
proof -
  let ?s = "a @ sep @ b"
  have low: "toLowerCase ?s = ?s"
    unfolding toLowerCase_def using a(2) b(2) sep(2)
    by (intro map_idI) (auto simp: list_all_iff alnum_facts separator_facts)
  have "\<not> isWhiteSpace (hd ?s)" "\<not> isWhiteSpace (last ?s)"
    using a b by (auto simp: list_all_iff alnum_facts)
  then have tr: "trim ?s = ?s" unfolding trim_def by (intro both_ends_id) simp
  have rs: "removeSpecial ?s = ?s"
    unfolding removeSpecial_def using a(2) b(2) sep(2) separator_facts(2)
    by (auto simp: list_all_iff alnum_facts filter_id_conv)
  have nsa: "list_all (\<lambda>c. \<not> isSeparator c) a" and nsb: "list_all (\<lambda>c. \<not> isSeparator c) b"
    using a(2) b(2) by (auto simp: list_all_iff alnum_facts)
  have hb: "hyphenate b = b" using hyphenate_word_prefix[OF nsb, of "[]"] by simp
  have "\<not> isSeparator (hd b)" using b by (cases b) (auto simp: alnum_facts)
  then have "hyphenate (sep @ b) = CHR ''-'' # b"
    using hyphenate_run[OF sep, of b] hb by simp
  then have hy: "hyphenate ?s = a @ ''-'' @ b"
    using hyphenate_word_prefix[OF nsa, of "sep @ b"] by simp
  have "\<not> isHyphen (hd (a @ ''-'' @ b))" "\<not> isHyphen (last (a @ ''-'' @ b))"
    using a b by (auto simp: list_all_iff alnum_facts)
  then have "stripHyphens (a @ ''-'' @ b) = a @ ''-'' @ b"
    unfolding stripHyphens_def by (intro both_ends_id) simp
  with low tr rs hy show ?thesis by (simp add: slugify_def)
qed

lemma slugify_special_run:
  assumes a: "list_all isAlnumLower a" and b: "list_all isAlnumLower b"
    and p: "list_all isSpecial p"
  shows "slugify (a @ p @ b) = a @ b"
proof -
  let ?p = "map toLowerCaseChar p"
  let ?s = "a @ ?p @ b"
  have low: "toLowerCase (a @ p @ b) = ?s"
    unfolding toLowerCase_def using a b by (simp add: list_all_iff alnum_facts map_idI)
  have nows: "\<forall>c\<in>set ?s. \<not> isWhiteSpace c"
    using a b p by (auto simp: list_all_iff alnum_facts special_facts)
  then have "?s = [] \<or> (\<not> isWhiteSpace (hd ?s) \<and> \<not> isWhiteSpace (last ?s))"
    by (metis hd_in_set last_in_set)
  then have tr: "trim ?s = ?s" unfolding trim_def by (rule both_ends_id)
  have "filter (\<lambda>c. isWordChar c \<or> isWhiteSpace c \<or> c = CHR ''-'') ?p = []"
    using p by (auto simp: list_all_iff special_facts filter_empty_conv)
  moreover have "filter (\<lambda>c. isWordChar c \<or> isWhiteSpace c \<or> c = CHR ''-'') a = a"
    "filter (\<lambda>c. isWordChar c \<or> isWhiteSpace c \<or> c = CHR ''-'') b = b"
    using a b by (auto simp: list_all_iff alnum_facts filter_id_conv)
  ultimately have rs: "removeSpecial ?s = a @ b" by (simp add: removeSpecial_def)
  have "list_all (\<lambda>c. \<not> isSeparator c) (a @ b)"
    using a b by (auto simp: list_all_iff alnum_facts)
  then have hy: "hyphenate (a @ b) = a @ b"
    using hyphenate_word_prefix[of "a @ b" "[]"] by simp
  have "\<forall>c\<in>set (a @ b). \<not> isHyphen c" using a b by (auto simp: list_all_iff alnum_facts)
  then have "a @ b = [] \<or> (\<not> isHyphen (hd (a @ b)) \<and> \<not> isHyphen (last (a @ b)))"
    by (metis hd_in_set last_in_set)
  then have "stripHyphens (a @ b) = a @ b" unfolding stripHyphens_def by (rule both_ends_id)
  with low tr rs hy show ?thesis by (simp add: slugify_def)
qed

lemma slugify_all_slug_chars: "list_all isSlugChar (slugify s)"
  using slugify_chars by (auto simp: list_all_iff)

text \<open>
  C10, as amended. For every input string the slug is lowercase, consists of characters
  of \<open>[a-z0-9-]\<close> only, has no two adjacent hyphens and neither starts nor ends with a
  hyphen. A run of white space, underscores and hyphens between two words becomes one
  hyphen; a run of any other punctuation is deleted and leaves no hyphen.
\<close>

theorem slugify_shape:
  "toLowerCase (slugify s) = slugify s
   \<and> list_all isSlugChar (slugify s)
   \<and> noDoubleHyphen (slugify s)
   \<and> \<not> startsWithHyphen (slugify s) \<and> \<not> endsWithHyphen (slugify s)
   \<and> (a \<noteq> [] \<and> list_all isAlnumLower a \<and> b \<noteq> [] \<and> list_all isAlnumLower b
        \<and> sep \<noteq> [] \<and> list_all isSeparator sep
      \<longrightarrow> slugify (a @ sep @ b) = a @ ''-'' @ b)
   \<and> (list_all isAlnumLower a \<and> list_all isAlnumLower b \<and> list_all isSpecial p
      \<longrightarrow> slugify (a @ p @ b) = a @ b)"
proof -
  have "noDoubleHyphen (slugify s)"
    unfolding slugify_def by (intro noDoubleHyphen_stripHyphens noDoubleHyphen_hyphenate)
  moreover have "\<not> startsWithHyphen (slugify s)" "\<not> endsWithHyphen (slugify s)"
    unfolding slugify_def by (rule strip_no_start, rule strip_no_end)
  ultimately show ?thesis
    using slugify_lower slugify_all_slug_chars slugify_separator_run slugify_special_run
    by blast
qed

theorem slugify_shape_witness:
  "(''foo'' \<noteq> [] \<and> list_all isAlnumLower ''foo'' \<and> ''bar'' \<noteq> [] \<and> list_all isAlnumLower ''bar''
      \<and> '' _-'' \<noteq> [] \<and> list_all isSeparator '' _-'' \<and> list_all isSpecial ''.,!'')
   \<and> slugify (''foo'' @ '' _-'' @ ''bar'') = ''foo-bar''
   \<and> slugify (''foo'' @ ''.,!'' @ ''bar'') = ''foobar''
   \<and> list_all isSlugChar (slugify ''  Hello, World!  '')
   \<and> noDoubleHyphen (slugify ''  Hello, World!  '')
   \<and> \<not> startsWithHyphen (slugify ''  Hello, World!  '')
   \<and> \<not> endsWithHyphen (slugify ''  Hello, World!  '')"
proof -
  have h: "''foo'' \<noteq> [] \<and> list_all isAlnumLower ''foo'' \<and> ''bar'' \<noteq> []
      \<and> list_all isAlnumLower ''bar'' \<and> '' _-'' \<noteq> [] \<and> list_all isSeparator '' _-''
      \<and> list_all isSpecial ''.,!''"
    by (simp add: isAlnumLower_def isSeparator_def isSpecial_def isWordChar_def
        isWhiteSpace_def)
  show ?thesis
    using h slugify_shape [of "''  Hello, World!  ''" "''foo''" "''bar''" "'' _-''" "''.,!''"]
    by simp
qed

text \<open>
  C10, as stated, fails: the punctuation run between \<open>a\<close> and \<open>b\<close> is not collapsed to a
  hyphen, it is deleted.
\<close>

theorem slugify_punctuation_counterexample:
  "slugify ''a.b'' = ''ab'' \<and> slugify ''a.b'' \<noteq> ''a-b''"
  by (simp add: slugify_def stripHyphens_def removeSpecial_def trim_def toLowerCase_def
      toLowerCaseChar_def isUpperCase_def isWordChar_def isWhiteSpace_def isSeparator_def
      isHyphen_def)


section \<open>Lookups after inserts and updates\<close>

lemma find_map_same:
  assumes "\<And>x. key (f x) = key x"
  shows "find (\<lambda>x. key x = i) (map (\<lambda>x. if key x = i then f x else x) xs)
         = map_option f (find (\<lambda>x. key x = i) xs)"
  using assms by (induction xs) auto

lemma find_map_other:
  assumes "\<And>x. key (f x) = key x" "j \<noteq> i"
  shows "find (\<lambda>x. key x = j) (map (\<lambda>x. if key x = i then f x else x) xs)
         = find (\<lambda>x. key x = j) xs"
  using assms by (induction xs) auto

lemma find_append:
  "find P (xs @ ys) = (case find P xs of None \<Rightarrow> find P ys | Some x \<Rightarrow> Some x)"
  by (induction xs) auto

lemma getTicket_updateTicket:
  "getTicket (snd (updateTicket i d now db)) j
     = (if j = i then map_option (applyTicketPatch d now) (getTicket db i) else getTicket db j)"
  using find_map_same[of t_id "applyTicketPatch d now" i "tickets db"]
    find_map_other[of t_id "applyTicketPatch d now" j i "tickets db"]
  by (simp add: updateTicket_def getTicket_def Let_def applyTicketPatch_def)

lemma updateTicket_others:
  "users (snd (updateTicket i d now db)) = users db"
  "ticketReplies (snd (updateTicket i d now db)) = ticketReplies db"
  "staffApplications (snd (updateTicket i d now db)) = staffApplications db"
  "staffMembers (snd (updateTicket i d now db)) = staffMembers db"
  by (simp_all add: updateTicket_def Let_def)

lemma fst_updateTicket:
  "fst (updateTicket i d now db) = getTicket (snd (updateTicket i d now db)) i"
  by (simp add: updateTicket_def Let_def)

text \<open>Each \<open>create...\<close> method leaves its row behind and throws.\<close>

lemma createTicketReply_throws:
  "createTicketReply reply now db
     = (Threw, db\<lparr>ticketReplies := ticketReplies db @ [newReply reply db]\<rparr>)"
  by (simp add: createTicketReply_def resultInsertId_def Let_def)

lemma createTicket_throws:
  "createTicket ticket now db = (Threw, db\<lparr>tickets := tickets db @ [newTicket ticket now db]\<rparr>)"
  by (simp add: createTicket_def resultInsertId_def Let_def)

lemma createStaffApplication_throws:
  "createStaffApplication application now db
     = (Threw, db\<lparr>staffApplications :=
                     staffApplications db @ [newApplication application now db]\<rparr>)"
  by (simp add: createStaffApplication_def resultInsertId_def Let_def)

lemma createStaffMember_throws:
  "createStaffMember member db
     = (Threw, db\<lparr>staffMembers :=
                     staffMembers db @ [member\<lparr>m_id := generatedKey (map m_id (staffMembers db))\<rparr>]\<rparr>)"
  by (simp add: createStaffMember_def resultInsertId_def Let_def)

section \<open>Replies to tickets\<close>

lemma isAuthenticated_Some [simp]: "isAuthenticated (Some p) = Inr p"
  by (simp add: isAuthenticated_def)

lemma isAdmin_Some:
  "isAdmin (Some p) = (if p_role p \<noteq> ''admin'' then Inl (Response 403 (Msg msgAcessoNegado))
                       else Inr p)"
  by (simp add: isAdmin_def)

lemma userTicketReply_denied:
  assumes "getTicket db tid = Some t" "t_userId t \<noteq> p_id p" "p_role p \<noteq> ''admin''"
  shows "userTicketReply schema (Some p) now tid msg att db
         = (Response 403 (Msg msgAcessoNegado), db)"
  using assms by (simp add: userTicketReply_def)

lemma userTicketClose_denied:
  assumes "getTicket db tid = Some t" "t_userId t \<noteq> p_id p" "p_role p \<noteq> ''admin''"
  shows "userTicketClose (Some p) now tid db = (Response 403 (Msg msgAcessoNegado), db)"
  using assms by (simp add: userTicketClose_def)

lemma userTicketReply_permitted:
  assumes t: "getTicket db tid = Some t"
    and a: "t_userId t = p_id p \<or> p_role p = ''admin''"
    and s: "schema (userReplyData p tid msg att) = Some replyData"
  shows "userTicketReply schema (Some p) now tid msg att db
         = (Response 500 (Msg msgErroResponderTicket),
            db\<lparr>ticketReplies := ticketReplies db @ [newReply replyData db]\<rparr>)"
  using t a s by (auto simp: userTicketReply_def createTicketReply_throws)

lemma adminTicketReply_permitted:
  assumes t: "getTicket db tid = Some t" and a: "p_role p = ''admin''"
  shows "fst (adminTicketReply (Some p) now tid msg att db)
           = Response 500 (Msg msgErroResponderTicket)
       \<and> (\<exists>row. ticketReplies (snd (adminTicketReply (Some p) now tid msg att db))
                  = ticketReplies db @ [row]
               \<and> r_ticketId row = tid \<and> r_userId row = p_id p \<and> r_message row = msg)"
  using t a
  by (simp add: adminTicketReply_def isAdmin_Some Let_def createTicketReply_throws
      updateTicket_others newReply_def)

lemmas ex_defs = exUsers_def ticketStore_def root_def ana_def bob_def eva_def emptyStore_def
  mkUser_def mkTicket_def mkPrincipal_def

lemmas handler_defs = userTicketCreate_def userTicketReply_def userTicketClose_def
  adminTicketAssign_def adminTicketReply_def isAuthenticated_def isAdmin_def userReplyData_def
  createTicketReply_def createTicket_def resultInsertId_def updateTicket_def closeTicket_def
  getTicket_def getUser_def generatedKey_def applyTicketPatch_def staffRoles_def
  assumedMessage_def assignReply_def newReply_def newTicket_def getTicketReplies_def Let_def

text \<open>
  C1, as amended. A reply to a closed ticket is refused (403, nothing stored) exactly when
  the actor is not allowed to reply to the ticket at all: on the user route when the actor
  is neither the owner nor an admin, on the admin route when the actor is not an admin.
  The status \<open>closed\<close> is not looked at: the reply of the owner (when the schema accepts
  it) or of an admin is appended to the thread of the closed ticket.
\<close>

theorem closed_ticket_reply:
  assumes "getTicket db tid = Some t" "t_status t = ''closed''"
  shows "(t_userId t \<noteq> p_id p \<and> p_role p \<noteq> ''admin''
            \<longrightarrow> userTicketReply schema (Some p) now tid msg att db
                = (Response 403 (Msg msgAcessoNegado), db))
       \<and> ((t_userId t = p_id p \<or> p_role p = ''admin'')
            \<and> schema (userReplyData p tid msg att) = Some (userReplyData p tid msg att)
            \<longrightarrow> snd (userTicketReply schema (Some p) now tid msg att db)
                = db\<lparr>ticketReplies :=
                       ticketReplies db @ [newReply (userReplyData p tid msg att) db]\<rparr>)
       \<and> (p_role p \<noteq> ''admin''
            \<longrightarrow> adminTicketReply (Some p) now tid msg att db
                = (Response 403 (Msg msgAcessoNegado), db))
       \<and> (p_role p = ''admin''
            \<longrightarrow> (\<exists>row. ticketReplies (snd (adminTicketReply (Some p) now tid msg att db))
                          = ticketReplies db @ [row]
                       \<and> r_ticketId row = tid \<and> r_userId row = p_id p \<and> r_message row = msg))"
  using assms userTicketReply_denied[of db tid t p schema now msg att]
    userTicketReply_permitted[of db tid t p schema msg att "userReplyData p tid msg att" now]
    adminTicketReply_permitted[of db tid t p now msg att]
  by (simp add: adminTicketReply_def isAdmin_Some)

text \<open>
  C1, as stated, fails: the owner's reply to her closed ticket 10 is stored as the first
  row of the thread. (\<open>createTicketReply\<close> throws after its INSERT, so the answer is 500.)
\<close>

theorem closed_ticket_reply_counterexample:
  "getTicket (ticketStore ''closed'') 10 = Some (mkTicket 10 5 ''closed'' None)
   \<and> userTicketReply Some (Some ana) 3 10 ''one more thing'' None (ticketStore ''closed'')
     = (Response 500 (Msg msgErroResponderTicket),
        (ticketStore ''closed'')\<lparr>ticketReplies :=
           [\<lparr>r_id = 1, r_ticketId = 10, r_userId = 5, r_message = ''one more thing''\<rparr>]\<rparr>)"
  by (simp add: handler_defs ex_defs)

theorem closed_ticket_reply_witness:
  "getTicket (ticketStore ''closed'') 10 = Some (mkTicket 10 5 ''closed'' None)
   \<and> t_status (mkTicket 10 5 ''closed'' None) = ''closed''
   \<and> userTicketReply Some (Some eva) 3 10 ''hi'' None (ticketStore ''closed'')
       = (Response 403 (Msg msgAcessoNegado), ticketStore ''closed'')
   \<and> adminTicketReply (Some eva) 3 10 ''hi'' None (ticketStore ''closed'')
       = (Response 403 (Msg msgAcessoNegado), ticketStore ''closed'')
   \<and> ticketReplies (snd (userTicketReply Some (Some ana) 3 10 ''hi'' None (ticketStore ''closed'')))
       = [\<lparr>r_id = 1, r_ticketId = 10, r_userId = 5, r_message = ''hi''\<rparr>]
   \<and> map r_userId (ticketReplies (snd (adminTicketReply (Some root) 3 10 ''hi'' None
         (ticketStore ''closed'')))) = [2]"
proof -
  have t: "getTicket (ticketStore ''closed'') 10 = Some (mkTicket 10 5 ''closed'' None)"
    by (simp add: getTicket_def ex_defs)
  have c: "t_status (mkTicket 10 5 ''closed'' None) = ''closed''"
    by (simp add: mkTicket_def)
  have e: "t_userId (mkTicket 10 5 ''closed'' None) \<noteq> p_id eva \<and> p_role eva \<noteq> ''admin''"
    by (simp add: ex_defs)
  have a: "t_userId (mkTicket 10 5 ''closed'' None) = p_id ana" by (simp add: ex_defs)
  have r: "p_role root = ''admin''" "p_id root = 2" by (simp_all add: ex_defs)
  have n: "newReply (userReplyData ana 10 ''hi'' None) (ticketStore ''closed'')
           = \<lparr>r_id = 1, r_ticketId = 10, r_userId = 5, r_message = ''hi''\<rparr>"
    by (simp add: newReply_def userReplyData_def generatedKey_def ex_defs)
  have s: "ticketReplies (ticketStore ''closed'') = []" by (simp add: ex_defs)
  show ?thesis
    using t c e a r n s
      closed_ticket_reply [OF t c, of eva Some 3 "''hi''" None]
      closed_ticket_reply [OF t c, of ana Some 3 "''hi''" None]
      closed_ticket_reply [OF t c, of root Some 3 "''hi''" None]
    by auto
qed


section \<open>Who may reply to and close a ticket\<close>

lemma closeTicket_result:
  assumes "getTicket db tid = Some t"
  shows "closeTicket tid uid now db
         = (Some (t\<lparr>t_status := ''closed'', t_closedAt := Some now, t_closedBy := Some uid,
                      t_updatedAt := now\<rparr>),
            db\<lparr>tickets := map (\<lambda>t. if t_id t = tid
                                      then t\<lparr>t_status := ''closed'', t_closedAt := Some now,
                                             t_closedBy := Some uid, t_updatedAt := now\<rparr>
                                      else t) (tickets db)\<rparr>)"
  using assms
    find_map_same[of t_id "\<lambda>t. t\<lparr>t_status := ''closed'', t_closedAt := Some now,
                             t_closedBy := Some uid, t_updatedAt := now\<rparr>" tid "tickets db"]
  by (simp add: closeTicket_def getTicket_def Let_def)

text \<open>
  C5, as amended. On the user routes a reply or a close gets past the authorization check
  only if the actor is the owner of the ticket or has the role \<open>admin\<close>: then the close is
  answered with 200 and leaves the ticket \<open>closed\<close>, and the reply is not answered with
  403 and, when the schema accepts it, its row is stored. Every other actor, a non-owner
  \<open>moderator\<close> or \<open>support\<close> included, receives 403 and the store is unchanged.
\<close>

theorem ticket_reply_close_authorization:
  assumes "getTicket db tid = Some t"
  shows "(if t_userId t = p_id p \<or> p_role p = ''admin''
          then code (fst (userTicketClose (Some p) now tid db)) = 200
             \<and> map_option t_status (getTicket (snd (userTicketClose (Some p) now tid db)) tid)
                 = Some ''closed''
             \<and> code (fst (userTicketReply schema (Some p) now tid msg att db)) \<noteq> 403
             \<and> (\<forall>replyData. schema (userReplyData p tid msg att) = Some replyData
                  \<longrightarrow> ticketReplies (snd (userTicketReply schema (Some p) now tid msg att db))
                      = ticketReplies db @ [newReply replyData db])
          else userTicketReply schema (Some p) now tid msg att db
                 = (Response 403 (Msg msgAcessoNegado), db)
             \<and> userTicketClose (Some p) now tid db
                 = (Response 403 (Msg msgAcessoNegado), db))"
proof (cases "t_userId t = p_id p \<or> p_role p = ''admin''")
  case True
  let ?f = "\<lambda>t. t\<lparr>t_status := ''closed'', t_closedAt := Some now,
                             t_closedBy := Some (p_id p), t_updatedAt := now\<rparr>"
  have c: "userTicketClose (Some p) now tid db
            = (Response 200 (TicketJson (Some (?f t))),
               db\<lparr>tickets := map (\<lambda>t. if t_id t = tid then ?f t else t) (tickets db)\<rparr>)"
    using True assms closeTicket_result[OF assms, of "p_id p" now]
    by (auto simp: userTicketClose_def)
  have "getTicket (db\<lparr>tickets := map (\<lambda>t. if t_id t = tid then ?f t else t) (tickets db)\<rparr>) tid
        = Some (?f t)"
    using assms find_map_same[of t_id ?f tid "tickets db"] by (simp add: getTicket_def)
  with c have 1: "code (fst (userTicketClose (Some p) now tid db)) = 200"
    "map_option t_status (getTicket (snd (userTicketClose (Some p) now tid db)) tid) = Some ''closed''"
    by simp_all
  have 2: "code (fst (userTicketReply schema (Some p) now tid msg att db)) \<noteq> 403"
    using True assms
    by (auto simp: userTicketReply_def createTicketReply_throws split: option.splits)
  have 3: "ticketReplies (snd (userTicketReply schema (Some p) now tid msg att db))
                      = ticketReplies db @ [newReply replyData db]"
    if "schema (userReplyData p tid msg att) = Some replyData" for replyData
    using userTicketReply_permitted[of db tid t p schema msg att replyData now] assms True that
    by simp
  from True 1 2 3 show ?thesis by simp
next
  case False
  then show ?thesis
    using assms userTicketReply_denied[OF assms, of p schema now msg att]
      userTicketClose_denied[OF assms, of p now] by simp
qed

theorem ticket_reply_close_authorization_witness:
  "getTicket (ticketStore ''open'') 10 = Some (mkTicket 10 5 ''open'' None)
   \<and> userTicketReply Some (Some bob) 3 10 ''hi'' None (ticketStore ''open'')
       = (Response 403 (Msg msgAcessoNegado), ticketStore ''open'')
   \<and> userTicketClose (Some eva) 3 10 (ticketStore ''open'')
       = (Response 403 (Msg msgAcessoNegado), ticketStore ''open'')
   \<and> code (fst (userTicketClose (Some ana) 3 10 (ticketStore ''open''))) = 200
   \<and> code (fst (userTicketReply Some (Some root) 3 10 ''hi'' None (ticketStore ''open''))) \<noteq> 403
   \<and> length (ticketReplies (snd (userTicketReply Some (Some root) 3 10 ''hi'' None
                 (ticketStore ''open'')))) = 1"
proof -
  have t: "getTicket (ticketStore ''open'') 10 = Some (mkTicket 10 5 ''open'' None)"
    by (simp add: getTicket_def ex_defs)
  have o: "t_userId (mkTicket 10 5 ''open'' None) = 5" by (simp add: mkTicket_def)
  have p: "p_id bob = 6" "p_role bob = ''moderator''" "p_id eva = 7" "p_role eva = ''support''"
    "p_id ana = 5" "p_role root = ''admin''"
    by (simp_all add: ex_defs)
  have s: "ticketReplies (ticketStore ''open'') = []" by (simp add: ex_defs)
  show ?thesis
    using t o p s
      ticket_reply_close_authorization [OF t, of bob 3 Some "''hi''" None]
      ticket_reply_close_authorization [OF t, of eva 3 Some "''hi''" None]
      ticket_reply_close_authorization [OF t, of ana 3 Some "''hi''" None]
      ticket_reply_close_authorization [OF t, of root 3 Some "''hi''" None]
    by simp
qed

text \<open>
  C5, as stated, fails: the moderator \<open>bob\<close> and the support agent \<open>eva\<close>, who do not own
  ticket 10, are refused.
\<close>

theorem moderator_reply_counterexample:
  "p_role bob = ''moderator'' \<and> p_role eva = ''support''
   \<and> userTicketReply Some (Some bob) 3 10 ''on it'' None (ticketStore ''open'')
       = (Response 403 (Msg msgAcessoNegado), ticketStore ''open'')
   \<and> userTicketClose (Some eva) 3 10 (ticketStore ''open'')
       = (Response 403 (Msg msgAcessoNegado), ticketStore ''open'')"
  by (simp add: handler_defs ex_defs)

section \<open>Assignment\<close>

lemma getUser_updateTicket: "getUser (snd (updateTicket i d now db)) = getUser db"
  by (simp add: getUser_def updateTicket_others fun_eq_iff)

lemma newReply_updateTicket:
  "newReply r (snd (updateTicket i d now db)) = newReply r db"
  by (simp add: newReply_def updateTicket_others)

text \<open>
  C8, as amended. For every ticket, whatever its status (\<open>closed\<close> included), the assignment
  by an admin stores the assignee, sets the status to \<open>processing\<close> and appends the system
  reply to the thread.
\<close>

theorem assign_any_status:
  assumes t: "getTicket db tid = Some t" and a: "p_role p = ''admin''"
  shows "snd (adminTicketAssign (Some p) now tid db)
         = db\<lparr>tickets := map (\<lambda>x. if t_id x = tid
                                     then x\<lparr>t_status := ''processing'',
                                            t_assignedTo := Some (p_id p), t_updatedAt := now\<rparr>
                                     else x) (tickets db),
               ticketReplies := ticketReplies db @ [newReply (assignReply p tid db) db]\<rparr>
       \<and> getTicket (snd (adminTicketAssign (Some p) now tid db)) tid
         = Some (t\<lparr>t_status := ''processing'', t_assignedTo := Some (p_id p),
                    t_updatedAt := now\<rparr>)"
proof -
  let ?d = "\<lparr>tp_status = Some ''processing'', tp_assignedTo = Some (p_id p)\<rparr>"
  let ?db1 = "snd (updateTicket tid ?d now db)"
  let ?t' = "t\<lparr>t_status := ''processing'', t_assignedTo := Some (p_id p), t_updatedAt := now\<rparr>"
  have ap: "applyTicketPatch ?d now = (\<lambda>x. x\<lparr>t_status := ''processing'',
              t_assignedTo := Some (p_id p), t_updatedAt := now\<rparr>)"
    by (simp add: applyTicketPatch_def fun_eq_iff)
  have g1: "getTicket ?db1 tid = Some ?t'"
    using t by (simp add: getTicket_updateTicket ap)
  have db1: "?db1 = db\<lparr>tickets := map (\<lambda>x. if t_id x = tid then x\<lparr>t_status := ''processing'',
              t_assignedTo := Some (p_id p), t_updatedAt := now\<rparr> else x) (tickets db)\<rparr>"
    by (simp add: updateTicket_def Let_def ap)
  have r: "assignReply p tid ?db1 = assignReply p tid db"
    by (simp add: assignReply_def getUser_updateTicket)
  have main: "snd (adminTicketAssign (Some p) now tid db)
        = ?db1\<lparr>ticketReplies := ticketReplies ?db1 @ [newReply (assignReply p tid db) ?db1]\<rparr>"
    using t a
    by (simp add: adminTicketAssign_def isAdmin_Some Let_def split_def createTicketReply_throws r)
  have fin: "snd (adminTicketAssign (Some p) now tid db)
      = db\<lparr>tickets := map (\<lambda>x. if t_id x = tid then x\<lparr>t_status := ''processing'',
              t_assignedTo := Some (p_id p), t_updatedAt := now\<rparr> else x) (tickets db),
           ticketReplies := ticketReplies db @ [newReply (assignReply p tid db) db]\<rparr>"
    unfolding main newReply_updateTicket updateTicket_others unfolding db1 by simp
  have "getTicket (snd (adminTicketAssign (Some p) now tid db)) tid = Some ?t'"
    unfolding main using g1 by (simp add: getTicket_def)
  with fin show ?thesis by simp
qed

theorem assign_any_status_witness:
  "getTicket (ticketStore ''open'') 10 = Some (mkTicket 10 5 ''open'' None)
   \<and> p_role root = ''admin''
   \<and> map_option t_status (getTicket (snd (adminTicketAssign (Some root) 4 10 (ticketStore ''open''))) 10)
       = Some ''processing''
   \<and> map_option t_assignedTo (getTicket (snd (adminTicketAssign (Some root) 4 10 (ticketStore ''open''))) 10)
       = Some (Some 2)"
proof -
  have t: "getTicket (ticketStore ''open'') 10 = Some (mkTicket 10 5 ''open'' None)"
    by (simp add: getTicket_def ex_defs)
  have r: "p_role root = ''admin''" "p_id root = 2" by (simp_all add: ex_defs)
  have "getTicket (snd (adminTicketAssign (Some root) 4 10 (ticketStore ''open''))) 10
        = Some ((mkTicket 10 5 ''open'' None)\<lparr>t_status := ''processing'',
                  t_assignedTo := Some (p_id root), t_updatedAt := 4\<rparr>)"
    using assign_any_status [OF t r(1), of 4] by (rule conjunct2)
  then show ?thesis using t r by simp
qed

text \<open>
  C8, as stated, fails: the assignment of the closed ticket 10 is not refused as forbidden
  and does not leave the ticket as it was: the ticket is reopened as \<open>processing\<close> with the
  admin as assignee. (The answer is 500, since the system reply's \<open>createTicketReply\<close>
  throws after its INSERT.)
\<close>

theorem assign_closed_counterexample:
  "getTicket (ticketStore ''closed'') 10 = Some (mkTicket 10 5 ''closed'' None)
   \<and> fst (adminTicketAssign (Some root) 4 10 (ticketStore ''closed''))
       = Response 500 (Msg msgErroAtribuirTicket)
   \<and> getTicket (snd (adminTicketAssign (Some root) 4 10 (ticketStore ''closed''))) 10
       = Some ((mkTicket 10 5 ''processing'' (Some 2))\<lparr>t_updatedAt := 4\<rparr>)
   \<and> snd (adminTicketAssign (Some root) 4 10 (ticketStore ''closed'')) \<noteq> ticketStore ''closed''"
  by (simp add: handler_defs ex_defs)

section \<open>The status of a ticket\<close>

text \<open>
  C2 at the failing input: the admin \<open>root\<close> replies to the open ticket 10 on the user
  route. \<open>createTicketReply\<close> stores the reply and throws, the handler answers 500, and
  neither status update runs: the ticket is still \<open>open\<close>, not \<open>processing\<close>.
\<close>

theorem staff_reply_leaves_open:
  "p_role root = ''admin''
   \<and> getTicket (ticketStore ''open'') 10 = Some (mkTicket 10 5 ''open'' None)
   \<and> userTicketReply Some (Some root) 3 10 ''on it'' None (ticketStore ''open'')
       = (Response 500 (Msg msgErroResponderTicket),
          (ticketStore ''open'')\<lparr>ticketReplies :=
             [\<lparr>r_id = 1, r_ticketId = 10, r_userId = 2, r_message = ''on it''\<rparr>]\<rparr>)
   \<and> getTicket (snd (userTicketReply Some (Some root) 3 10 ''on it'' None (ticketStore ''open''))) 10
       = Some (mkTicket 10 5 ''open'' None)"
  by (simp add: handler_defs ex_defs)


lemma statusesValid_replies [simp]:
  "statusesValid (db\<lparr>ticketReplies := rs\<rparr>) = statusesValid db"
  by (simp add: statusesValid_def)

lemma statusesValid_updateTicket:
  assumes "statusesValid db"
    and "case tp_status d of None \<Rightarrow> True | Some s \<Rightarrow> s \<in> set ticketStatuses"
  shows "statusesValid (snd (updateTicket i d now db))"
  using assms
  by (auto simp: statusesValid_def updateTicket_def Let_def list_all_iff applyTicketPatch_def
      split: option.splits)

lemma statusesValid_closeTicket:
  assumes "statusesValid db"
  shows "statusesValid (snd (closeTicket i uid now db))"
  using assms
  by (auto simp: statusesValid_def closeTicket_def Let_def list_all_iff ticketStatuses_def
      split: option.splits)

lemma statusesValid_createTicket:
  assumes "statusesValid db"
  shows "statusesValid (snd (createTicket ticket now db))"
  using assms
  by (simp add: createTicket_throws statusesValid_def newTicket_def defaultTicketStatus_def
      ticketStatuses_def)

lemma statusesValid_createTicketReply:
  assumes "statusesValid db"
  shows "statusesValid (snd (createTicketReply reply now db))"
  using assms by (simp add: createTicketReply_throws)

lemma processing_valid:
  "case tp_status \<lparr>tp_status = Some ''processing'', tp_assignedTo = a\<rparr> of
     None \<Rightarrow> True | Some s \<Rightarrow> s \<in> set ticketStatuses"
  by (simp add: ticketStatuses_def)

lemma statusesValid_route:
  assumes v: "statusesValid db"
  shows "statusesValid (snd (ticketRoute ts rs actor now rq db))"
proof (cases rq)
  case (CreateTicket title message category)
  then show ?thesis
    using v statusesValid_createTicket[OF v]
    by (auto simp: userTicketCreate_def createTicket_throws isAuthenticated_def
        split: option.splits sum.splits)
next
  case (UserReply i message attachments)
  then show ?thesis
    using v
    by (auto simp: userTicketReply_def createTicketReply_throws isAuthenticated_def
        split: option.splits sum.splits)
next
  case (UserClose i)
  then show ?thesis
    using v statusesValid_closeTicket[OF v]
    by (auto simp: userTicketClose_def split_def Let_def isAuthenticated_def
        split: option.splits sum.splits)
next
  case (AdminAssign i)
  then show ?thesis
    using v statusesValid_updateTicket[OF v processing_valid]
    by (auto simp: adminTicketAssign_def split_def Let_def createTicketReply_throws
        split: option.splits sum.splits)
next
  case (AdminReply i message attachments)
  then show ?thesis
    using v statusesValid_updateTicket[OF v processing_valid]
    by (auto simp: adminTicketReply_def split_def Let_def createTicketReply_throws
        split: option.splits sum.splits)
qed

lemma statusesValid_run:
  "statusesValid db \<Longrightarrow> statusesValid (runTicketRequests ts rs reqs db)"
proof (induction reqs arbitrary: db)
  case Nil
  then show ?case by simp
next
  case (Cons r reqs)
  obtain actor now rq where r: "r = (actor, now, rq)" by (cases r) auto
  have "statusesValid (snd (ticketRoute ts rs actor now rq db))"
    using Cons.prems by (rule statusesValid_route)
  then show ?case using Cons.IH r by simp
qed

text \<open>
  C6. Whatever run of requests (create, reply on either route, assign, close) by whatever
  actors reaches the ticket routes, every ticket of the store keeps a status among \<open>open\<close>,
  \<open>processing\<close>, \<open>closed\<close>: from any store whose tickets have such a status, and from the
  empty store. (The update to \<open>in_progress\<close> in \<open>createTicketReply\<close> comes after the
  SELECT that throws and never runs.)
\<close>

theorem ticket_statuses_stay_valid:
  "(statusesValid db \<longrightarrow> statusesValid (runTicketRequests ts rs reqs db))
   \<and> statusesValid (runTicketRequests ts rs reqs emptyStore)"
proof -
  have "statusesValid emptyStore" by (simp add: statusesValid_def emptyStore_def)
  then show ?thesis using statusesValid_run by blast
qed

theorem ticket_statuses_stay_valid_witness:
  "statusesValid (ticketStore ''open'')
   \<and> statusesValid (runTicketRequests Some Some exRun (ticketStore ''open''))
   \<and> map t_status (tickets (runTicketRequests Some Some exRun (ticketStore ''open'')))
       = [''open'', ''processing'', ''processing'']"
proof -
  have v: "statusesValid (ticketStore ''open'')"
    by (simp add: statusesValid_def ticketStatuses_def ex_defs)
  have m: "map t_status (tickets (runTicketRequests Some Some exRun (ticketStore ''open'')))
       = [''open'', ''processing'', ''processing'']"
    by (simp add: exRun_def handler_defs ex_defs)
  show ?thesis
    using v m ticket_statuses_stay_valid [of "ticketStore ''open''" Some Some exRun]
    by simp
qed


section \<open>The hard-coded administrator\<close>

text \<open>
  C9. For the credentials \<open>thuglife\<close>/\<open>thuglife\<close> and every state of the database, the
  unreachable one included, the verify callback accepts with the synthetic principal, the
  login route answers 200 with it and stores its id 1 in the session (when \<open>req.login\<close>
  reports no error), and every later request of that session is given the same principal
  without a look at the user table. The principal has id 1 and role \<open>admin\<close>.
\<close>

theorem thuglife_login:
  "localStrategy compare now ''thuglife'' ''thuglife'' d = (Accepted adminUser, d)
   \<and> postAuthLogin compare now False ''thuglife'' ''thuglife'' session d
       = (Answered (Response 200 (PrincipalJson adminUser)), Some 1, d)
   \<and> deserializeUser 1 d = Some adminUser
   \<and> p_id adminUser = 1 \<and> p_role adminUser = ''admin''"
  by (simp add: localStrategy_def postAuthLogin_def deserializeUser_def adminUser_def
      serializeUser_def)

theorem thuglife_login_witness:
  "localStrategy (\<lambda>p h. False) 7 ''thuglife'' ''thuglife'' Unreachable
     = (Accepted adminUser, Unreachable)
   \<and> postAuthLogin (\<lambda>p h. False) 7 False ''thuglife'' ''thuglife'' None (Connected emptyStore)
       = (Answered (Response 200 (PrincipalJson adminUser)), Some 1, Connected emptyStore)
   \<and> getUser emptyStore 1 = None
   \<and> deserializeUser 1 (Connected emptyStore) = Some adminUser"
  using thuglife_login [of "\<lambda>p h. False" 7 Unreachable None]
    thuglife_login [of "\<lambda>p h. False" 7 "Connected emptyStore" None]
  by (simp add: getUser_def emptyStore_def)


section \<open>Applications: who writes the status\<close>

lemma a_id_applyApplicationPatch: "a_id (applyApplicationPatch d now a) = a_id a"
  by (simp add: applyApplicationPatch_def)

lemma getStaffApplication_update:
  "getStaffApplication (snd (updateStaffApplication i d now db)) j
     = (if j = i then map_option (applyApplicationPatch d now) (getStaffApplication db i)
        else getStaffApplication db j)"
  using find_map_same[of a_id "applyApplicationPatch d now" i "staffApplications db"]
    find_map_other[of a_id "applyApplicationPatch d now" j i "staffApplications db"]
  by (simp add: updateStaffApplication_def getStaffApplication_def Let_def
      a_id_applyApplicationPatch)

lemma updateStaffApplication_others:
  "users (snd (updateStaffApplication i d now db)) = users db"
  "tickets (snd (updateStaffApplication i d now db)) = tickets db"
  "ticketReplies (snd (updateStaffApplication i d now db)) = ticketReplies db"
  "staffMembers (snd (updateStaffApplication i d now db)) = staffMembers db"
  by (simp_all add: updateStaffApplication_def Let_def)

lemma fst_updateStaffApplication:
  "fst (updateStaffApplication i d now db)
     = getStaffApplication (snd (updateStaffApplication i d now db)) i"
  by (simp add: updateStaffApplication_def Let_def)

lemma getStaffApplication_create:
  assumes "getStaffApplication db i = Some a"
  shows "getStaffApplication (snd (createStaffApplication ins now db)) i = Some a"
  using assms by (simp add: createStaffApplication_throws getStaffApplication_def find_append)

lemma status_after_patch_without_status:
  "a_status (applyApplicationPatch \<lparr>ap_status = None, ap_adminNotes = n, ap_reviewedBy = r\<rparr> now a)
     = a_status a"
  by (simp add: applyApplicationPatch_def)

lemma not_admin_rejected:
  assumes "\<forall>p. actor = Some p \<longrightarrow> p_role p \<noteq> ''admin''"
  shows "\<exists>r. isAdmin actor = Inl r"
  using assms by (cases actor) (auto simp: isAdmin_def)

lemma application_status_kept:
  assumes a: "getStaffApplication db i = Some a"
    and w: "(\<forall>p. actor = Some p \<longrightarrow> p_role p \<noteq> ''admin'') \<or> \<not> writesStatus rq"
  shows "map_option a_status
           (getStaffApplication (snd (applicationRoute schema actor now rq db)) i)
         = Some (a_status a)"
proof (cases rq)
  case (PostFirst b)
  then show ?thesis
    using a getStaffApplication_create[OF a]
    by (simp add: postApplicationFirst_def createStaffApplication_throws
        getStaffApplication_def find_append split: option.splits)
next
  case (Post b)
  then show ?thesis
    using a getStaffApplication_create[OF a]
    by (simp add: postApplication_def Let_def createStaffApplication_throws
        getStaffApplication_def find_append split: sum.splits)
next
  case (PatchNotes j n)
  then show ?thesis
    using a
    by (auto simp: patchApplicationNotes_def split_def Let_def getStaffApplication_update
        status_after_patch_without_status fst_updateStaffApplication
        split: sum.splits option.splits)
next
  case (PatchApprove j n)
  with w obtain r where "isAdmin actor = Inl r" using not_admin_rejected by auto
  with PatchApprove a show ?thesis
    by (simp add: patchApplicationApprove_def patchApplicationDecision_def)
next
  case (PatchReject j n)
  with w obtain r where "isAdmin actor = Inl r" using not_admin_rejected by auto
  with PatchReject a show ?thesis
    by (simp add: patchApplicationReject_def patchApplicationDecision_def)
next
  case (Put j st n)
  with w obtain r where "isAdmin actor = Inl r" using not_admin_rejected by auto
  with Put a show ?thesis by (simp add: putApplication_def)
next
  case (Patch j st n)
  with w obtain r where "isAdmin actor = Inl r" using not_admin_rejected by auto
  with Patch a show ?thesis by (simp add: patchApplication_def)
qed

lemmas application_defs = postApplicationFirst_def postApplication_def
  patchApplicationNotes_def patchApplicationDecision_def patchApplicationApprove_def
  patchApplicationReject_def putApplication_def patchApplication_def isAuthenticated_def
  isAdmin_def getStaffApplication_def getStaffApplicationsByUserId_def
  createStaffApplication_def newApplication_def updateStaffApplication_def
  applyApplicationPatch_def getStaffMemberByUserId_def createStaffMember_def resultInsertId_def
  getUser_def updateUser_def applyUserPatch_def generatedKey_def defaultApplicationStatus_def
  pendingOf_def rosterOf_def postApplications_def Let_def

lemmas application_ex_defs = exBody_def acceptingSchema_def mkApplication_def
  mkMember_def applicationStore_def

lemma status_after_decision:
  assumes a: "getStaffApplication db i = Some a" and adm: "p_role p = ''admin''"
  shows "map_option a_status
           (getStaffApplication (snd (patchApplicationDecision st (Some p) now i n db)) i)
         = Some st"
  using a adm
  by (simp add: patchApplicationDecision_def isAdmin_Some split_def Let_def
      fst_updateStaffApplication getStaffApplication_update applyApplicationPatch_def)

lemma status_after_put:
  assumes a: "getStaffApplication db i = Some a" and adm: "p_role p = ''admin''"
  shows "map_option a_status
           (getStaffApplication (snd (putApplication (Some p) now i (Some st) n db)) i)
         = Some st"
  using a adm
  by (simp add: putApplication_def isAdmin_Some split_def Let_def
      fst_updateStaffApplication getStaffApplication_update applyApplicationPatch_def)

lemma patchApplication_applications:
  assumes a: "getStaffApplication db i = Some a" and adm: "p_role p = ''admin''"
    and v: "st \<in> set [''approved'', ''rejected'', ''pending'']"
  shows "staffApplications (snd (patchApplication (Some p) now i (Some st) n db))
         = staffApplications (snd (updateStaffApplication i
              \<lparr>ap_status = Some st,
               ap_adminNotes = Some (case n of None \<Rightarrow> a_adminNotes a
                                     | Some x \<Rightarrow> if x = [] then a_adminNotes a else x),
               ap_reviewedBy = Some (p_id p)\<rparr> now db))"
  using a adm v
  by (auto simp: patchApplication_def isAdmin_Some split_def Let_def createStaffMember_throws
      updateStaffApplication_def split: option.splits)

lemma status_after_patch:
  assumes a: "getStaffApplication db i = Some a" and adm: "p_role p = ''admin''"
    and v: "st \<in> set [''approved'', ''rejected'', ''pending'']"
  shows "map_option a_status
           (getStaffApplication (snd (patchApplication (Some p) now i (Some st) n db)) i)
         = Some st"
proof -
  let ?d = "\<lparr>ap_status = Some st,
               ap_adminNotes = Some (case n of None \<Rightarrow> a_adminNotes a
                                     | Some x \<Rightarrow> if x = [] then a_adminNotes a else x),
               ap_reviewedBy = Some (p_id p)\<rparr>"
  have "getStaffApplication (snd (patchApplication (Some p) now i (Some st) n db)) i
        = getStaffApplication (snd (updateStaffApplication i ?d now db)) i"
    unfolding getStaffApplication_def patchApplication_applications[OF a adm v] ..
  then show ?thesis
    using a by (simp add: getStaffApplication_update applyApplicationPatch_def)
qed

text \<open>
  C7, as amended. The status of an application, \<open>approved\<close> and \<open>rejected\<close> included, is
  changed by no request of an actor who is not an admin, and by no submission or notes
  update. The admin routes that write the status (approve, reject, the PATCH with one of
  \<open>approved\<close>, \<open>rejected\<close>, \<open>pending\<close>, the legacy PUT) do not look at the current status:
  the application is left with the status of the request.
\<close>

theorem application_status_writers:
  assumes a: "getStaffApplication db i = Some a"
  shows "((\<forall>p. actor = Some p \<longrightarrow> p_role p \<noteq> ''admin'') \<or> \<not> writesStatus rq
           \<longrightarrow> map_option a_status
                 (getStaffApplication (snd (applicationRoute schema actor now rq db)) i)
               = Some (a_status a))
       \<and> (p_role p = ''admin''
           \<longrightarrow> map_option a_status (getStaffApplication
                   (snd (applicationRoute schema (Some p) now (PatchApprove i n) db)) i)
                 = Some ''approved''
             \<and> map_option a_status (getStaffApplication
                   (snd (applicationRoute schema (Some p) now (PatchReject i n) db)) i)
                 = Some ''rejected''
             \<and> map_option a_status (getStaffApplication
                   (snd (applicationRoute schema (Some p) now (Put i (Some st) n) db)) i)
                 = Some st
             \<and> (st \<in> set [''approved'', ''rejected'', ''pending'']
                 \<longrightarrow> map_option a_status (getStaffApplication
                        (snd (applicationRoute schema (Some p) now (Patch i (Some st) n) db)) i)
                      = Some st))"
proof -
  have 1: "map_option a_status
             (getStaffApplication (snd (applicationRoute schema actor now rq db)) i)
           = Some (a_status a)"
    if w: "(\<forall>p. actor = Some p \<longrightarrow> p_role p \<noteq> ''admin'') \<or> \<not> writesStatus rq"
    by (rule application_status_kept[OF a w])
  have 2: "map_option a_status (getStaffApplication
                   (snd (applicationRoute schema (Some p) now (PatchApprove i n) db)) i)
                 = Some ''approved''
             \<and> map_option a_status (getStaffApplication
                   (snd (applicationRoute schema (Some p) now (PatchReject i n) db)) i)
                 = Some ''rejected''
             \<and> map_option a_status (getStaffApplication
                   (snd (applicationRoute schema (Some p) now (Put i (Some st) n) db)) i)
                 = Some st
             \<and> (st \<in> set [''approved'', ''rejected'', ''pending'']
                 \<longrightarrow> map_option a_status (getStaffApplication
                        (snd (applicationRoute schema (Some p) now (Patch i (Some st) n) db)) i)
                      = Some st)"
    if adm: "p_role p = ''admin''"
    using status_after_decision[OF a adm] status_after_put[OF a adm] status_after_patch[OF a adm]
    by (simp add: patchApplicationApprove_def patchApplicationReject_def)
  from 1 2 show ?thesis by blast
qed

theorem application_status_writers_witness:
  "getStaffApplication (applicationStore ''approved'' []) 7 = Some (mkApplication 7 5 ''approved'')
   \<and> p_role ana \<noteq> ''admin'' \<and> \<not> writesStatus (PatchNotes 7 (Some ''fine''))
   \<and> p_role root = ''admin'' \<and> ''pending'' \<in> set [''approved'', ''rejected'', ''pending'']
   \<and> map_option a_status (getStaffApplication (snd (applicationRoute acceptingSchema (Some ana) 9
          (Patch 7 (Some ''pending'') None) (applicationStore ''approved'' []))) 7)
       = Some ''approved''
   \<and> map_option a_status (getStaffApplication (snd (applicationRoute acceptingSchema (Some root) 9
          (PatchNotes 7 (Some ''fine'')) (applicationStore ''approved'' []))) 7)
       = Some ''approved''
   \<and> map_option a_status (getStaffApplication (snd (applicationRoute acceptingSchema (Some root) 9
          (Patch 7 (Some ''pending'') None) (applicationStore ''approved'' []))) 7)
       = Some ''pending''"
proof -
  have a: "getStaffApplication (applicationStore ''approved'' []) 7
           = Some (mkApplication 7 5 ''approved'')"
    by (simp add: getStaffApplication_def application_ex_defs ex_defs)
  have s: "a_status (mkApplication 7 5 ''approved'') = ''approved''"
    by (simp add: mkApplication_def)
  have r: "p_role ana \<noteq> ''admin''" "p_role root = ''admin''" by (simp_all add: ex_defs)
  show ?thesis
    using a s r
      application_status_writers [OF a, where actor = "Some ana" and schema = acceptingSchema
        and now = 9 and rq = "Patch 7 (Some ''pending'') None" and p = root
        and st = "''pending''" and n = None]
      application_status_writers [OF a, where actor = "Some root" and schema = acceptingSchema
        and now = 9 and rq = "PatchNotes 7 (Some ''fine'')" and p = root
        and st = "''pending''" and n = None]
    by simp
qed

text \<open>
  C7, as stated, fails: an admin sets the approved application 7 back to \<open>pending\<close>, or
  rejects it.
\<close>

theorem approved_application_reopened_counterexample:
  "getStaffApplication (applicationStore ''approved'' []) 7 = Some (mkApplication 7 5 ''approved'')
   \<and> map_option a_status (getStaffApplication (snd (applicationRoute acceptingSchema (Some root) 9
          (Patch 7 (Some ''pending'') None) (applicationStore ''approved'' []))) 7)
       = Some ''pending''
   \<and> map_option a_status (getStaffApplication (snd (applicationRoute acceptingSchema (Some root) 9
          (PatchReject 7 None) (applicationStore ''approved'' []))) 7)
       = Some ''rejected''"
  by (simp add: application_defs application_ex_defs ex_defs)


section \<open>Applications: approval and the roster\<close>

text \<open>
  C3 at the failing input: the admin \<open>root\<close> approves the pending application 7 of \<open>ana\<close>,
  who has a user row and no roster row, through PATCH /api/admin/applications/:id. The
  status is written, \<open>createStaffMember\<close> stores the roster row and throws, the role
  update never runs and the answer is 500: the application is \<open>approved\<close>, the roster has
  the new row, the role is still \<open>user\<close>. Through PATCH .../:id/approve the answer is 200
  and neither the roster nor the role is touched.
\<close>

theorem approval_half_applied:
  "getStaffApplication (applicationStore ''pending'' []) 7 = Some (mkApplication 7 5 ''pending'')
   \<and> p_role root = ''admin''
   \<and> map_option u_role (getUser (applicationStore ''pending'' []) 5) = Some ''user''
   \<and> rosterOf (applicationStore ''pending'' []) 5 = []
   \<and> fst (patchApplication (Some root) 9 7 (Some ''approved'') None
            (applicationStore ''pending'' []))
       = Response 500 (Msg msgErroAtualizarCandidatura)
   \<and> map_option a_status (getStaffApplication (snd (patchApplication (Some root) 9 7
          (Some ''approved'') None (applicationStore ''pending'' []))) 7) = Some ''approved''
   \<and> map m_role (rosterOf (snd (patchApplication (Some root) 9 7 (Some ''approved'') None
          (applicationStore ''pending'' []))) 5) = [''moderator'']
   \<and> map_option u_role (getUser (snd (patchApplication (Some root) 9 7 (Some ''approved'') None
          (applicationStore ''pending'' []))) 5) = Some ''user''
   \<and> code (fst (patchApplicationApprove (Some root) 9 7 None (applicationStore ''pending'' [])))
       = 200
   \<and> map_option a_status (getStaffApplication (snd (patchApplicationApprove (Some root) 9 7 None
          (applicationStore ''pending'' []))) 7) = Some ''approved''
   \<and> rosterOf (snd (patchApplicationApprove (Some root) 9 7 None
          (applicationStore ''pending'' []))) 5 = []
   \<and> map_option u_role (getUser (snd (patchApplicationApprove (Some root) 9 7 None
          (applicationStore ''pending'' []))) 5) = Some ''user''"
  by (simp add: application_defs application_ex_defs ex_defs)

section \<open>Applications: a second submission\<close>

text \<open>
  C4 at the failing input: \<open>ana\<close>, whose application 7 is pending, posts another one.
  The router serves the request from the first registration, which looks for no pending
  application: the second application is stored as pending (and the answer is 500, since
  \<open>createStaffApplication\<close> throws after its INSERT), not refused with 400.
\<close>

theorem second_application_stored:
  "pendingOf (applicationStore ''pending'' []) 5 = [mkApplication 7 5 ''pending'']
   \<and> fst (postApplications acceptingSchema (Some ana) 9 exBody (applicationStore ''pending'' []))
       = Response 500 (Msg msgErroCriarAplicacao)
   \<and> map a_id (pendingOf (snd (postApplications acceptingSchema (Some ana) 9 exBody
                 (applicationStore ''pending'' []))) 5) = [7, 8]"
  by (simp add: application_defs application_ex_defs ex_defs)

end
